theory Spec2Isabelle
  imports Complex_Main
begin

section \<open>Data model (shared/schema.ts)\<close>

text \<open>
  Table rows are records, tables are lists of rows in storage order. A decimal(10,2)
  column holds the real number its decimal string denotes; \<open>parseFloat\<close> turns it into
  a JavaScript \<open>number\<close>, which is a real number that a double can hold. Column
  identifiers are uuid strings: every value of type \<open>uuid\<close> stands for a well-formed
  uuid, which the examples abbreviate (\<open>k1\<close>, \<open>a1\<close>). Fields carry the table's name as a
  prefix where the column name is shared between tables.
\<close>

type_synonym uuid = string

text \<open>A \<open>Date\<close>: the calendar year, the zero-based month and the instant in milliseconds.\<close>

record date =
  getFullYear :: int
  getMonth :: int
  getTime :: int

datatype severity = low | medium | high | critical

datatype status = Green | Amber | Red

record department =
  dept_id :: uuid
  dept_name :: string
  dept_code :: string
  dept_isActive :: bool

record pillar =
  pillar_id :: uuid
  pillar_name :: string

record kpi =
  kpi_id :: uuid
  kpi_name :: string
  kpi_pillarId :: uuid
  kpi_departmentId :: uuid
  kpi_isActive :: bool

text \<open>\<open>KPIWithDetails = KPI & {pillar, department, status, progress}\<close>.\<close>

record kpiWithDetails = kpi +
  kd_pillar :: pillar
  kd_department :: department
  kd_status :: status
  kd_progress :: real

text \<open>The threshold of a target, a jsonb value with three numerals.\<close>

record threshold =
  green :: real
  amber :: real
  red :: real

record target =
  target_id :: uuid
  target_kpiId :: uuid
  target_year :: int
  target_quarter :: "int option"
  targetValue :: real
  target_threshold :: threshold

record actual =
  actual_id :: uuid
  actual_kpiId :: uuid
  actual_targetId :: uuid
  actualValue :: real

text \<open>
  An alert row. The \<open>description\<close> column (free text that embeds formatted numbers) and
  the \<open>metadata\<close> column are presentation only and are left out of the row.
\<close>

record alert =
  alert_id :: uuid
  alert_type :: string
  alert_severity :: severity
  alert_title :: string
  alert_kpiId :: "uuid option"
  alert_departmentId :: "uuid option"
  alert_triggeredBy :: "uuid option"
  isRead :: bool
  isResolved :: bool
  resolvedBy :: "uuid option"
  resolvedAt :: "date option"
  alert_createdAt :: date

text \<open>\<open>InsertAlert\<close>: the columns a caller supplies; \<open>id\<close> and \<open>createdAt\<close> are omitted
  and filled by the column defaults, absent flags default to \<open>false\<close>.\<close>

record insertAlert =
  ins_type :: string
  ins_severity :: severity
  ins_title :: string
  ins_kpiId :: "uuid option"
  ins_departmentId :: "uuid option"
  ins_triggeredBy :: "uuid option"
  ins_isRead :: "bool option"
  ins_isResolved :: "bool option"
  ins_resolvedBy :: "uuid option"
  ins_resolvedAt :: "date option"

text \<open>\<open>Partial<Alert>\<close> restricted to the keys the alert route can set.\<close>

record alertUpdates =
  upd_isRead :: "bool option"
  upd_isResolved :: "bool option"
  upd_resolvedBy :: "uuid option"
  upd_resolvedAt :: "date option"

section \<open>Storage (server/storage.ts)\<close>

text \<open>
  The database is the list of rows of each table together with the set of storage
  operations that are currently failing: a query on a failing operation rejects, which
  the model returns as \<open>Inl\<close>.
\<close>

datatype storeOp = GetDepartments | GetKPI | GetTargets | GetActuals | CreateAlert | UpdateAlert

datatype error = DbError storeOp | Error string

record db =
  departments :: "department list"
  pillars :: "pillar list"
  kpis :: "kpi list"
  targets :: "target list"
  actuals :: "actual list"
  alerts :: "alert list"
  down :: "storeOp set"

definition getDepartments :: "db \<Rightarrow> error + department list" where
  "getDepartments d =
     (if GetDepartments \<in> down d then Inl (DbError GetDepartments)
      else Inr (filter (\<lambda>dep. dept_isActive dep = True) (departments d)))"

text \<open>\<open>getKPI\<close>: the KPI row joined with its pillar and department; the first joined row,
  with the hardcoded status and progress, or \<open>undefined\<close>.\<close>

definition getKPI :: "db \<Rightarrow> uuid \<Rightarrow> error + kpiWithDetails option" where
  "getKPI d i =
     (if GetKPI \<in> down d then Inl (DbError GetKPI)
      else (case [(k, p, dep). k \<leftarrow> kpis d, p \<leftarrow> pillars d, kpi_pillarId k = pillar_id p,
                               dep \<leftarrow> departments d, kpi_departmentId k = dept_id dep,
                               kpi_id k = i] of
              [] \<Rightarrow> Inr None
            | (k, p, dep) # _ \<Rightarrow>
                Inr (Some \<lparr> kpi_id = kpi_id k, kpi_name = kpi_name k,
                            kpi_pillarId = kpi_pillarId k,
                            kpi_departmentId = kpi_departmentId k,
                            kpi_isActive = kpi_isActive k,
                            kd_pillar = p, kd_department = dep,
                            kd_status = Amber, kd_progress = 75 \<rparr>)))"

definition getTargets :: "db \<Rightarrow> uuid \<Rightarrow> int \<Rightarrow> int option \<Rightarrow> error + target list" where
  "getTargets d kpiId year quarter =
     (if GetTargets \<in> down d then Inl (DbError GetTargets)
      else Inr (filter (\<lambda>t. target_kpiId t = kpiId \<and> target_year t = year \<and>
                          (case quarter of None \<Rightarrow> True
                           | Some q \<Rightarrow> target_quarter t = Some q))
                  (targets d)))"

text \<open>\<open>getActuals\<close>: actuals joined with their target, filtered by KPI, year and quarter.\<close>

definition getActuals :: "db \<Rightarrow> uuid \<Rightarrow> int \<Rightarrow> int option \<Rightarrow> error + actual list" where
  "getActuals d kpiId year quarter =
     (if GetActuals \<in> down d then Inl (DbError GetActuals)
      else Inr [a. a \<leftarrow> actuals d, t \<leftarrow> targets d, actual_targetId a = target_id t,
                   actual_kpiId a = kpiId \<and> target_year t = year \<and>
                   (case quarter of None \<Rightarrow> True | Some q \<Rightarrow> target_quarter t = Some q)])"

text \<open>
  \<open>createAlert\<close>: inserts the row and returns it. The two column defaults that come from
  outside the program, \<open>gen_random_uuid()\<close> and \<open>now()\<close>, are arguments. The insertion
  is rejected when the type is longer than its column, varchar(50), or the title longer
  than varchar(255).
\<close>

definition createAlert :: "uuid \<Rightarrow> date \<Rightarrow> insertAlert \<Rightarrow> db \<Rightarrow> error + (alert \<times> db)" where
  "createAlert newId now ins d =
     (if CreateAlert \<in> down d then Inl (DbError CreateAlert)
      else if length (ins_type ins) > 50 \<or> length (ins_title ins) > 255 then
        Inl (Error ''value too long for type character varying'')
      else (let row = \<lparr> alert_id = newId, alert_type = ins_type ins,
                        alert_severity = ins_severity ins, alert_title = ins_title ins,
                        alert_kpiId = ins_kpiId ins,
                        alert_departmentId = ins_departmentId ins,
                        alert_triggeredBy = ins_triggeredBy ins,
                        isRead = (case ins_isRead ins of None \<Rightarrow> False | Some b \<Rightarrow> b),
                        isResolved = (case ins_isResolved ins of None \<Rightarrow> False | Some b \<Rightarrow> b),
                        resolvedBy = ins_resolvedBy ins, resolvedAt = ins_resolvedAt ins,
                        alert_createdAt = now \<rparr>
            in Inr (row, d\<lparr>alerts := alerts d @ [row]\<rparr>)))"

text \<open>\<open>.set(updateAlert)\<close> on one row: a key that is present overwrites the column.\<close>

definition setAlert :: "alertUpdates \<Rightarrow> alert \<Rightarrow> alert" where
  "setAlert u a =
     a\<lparr> isRead := (case upd_isRead u of None \<Rightarrow> isRead a | Some b \<Rightarrow> b),
        isResolved := (case upd_isResolved u of None \<Rightarrow> isResolved a | Some b \<Rightarrow> b),
        resolvedBy := (case upd_resolvedBy u of None \<Rightarrow> resolvedBy a | Some w \<Rightarrow> Some w),
        resolvedAt := (case upd_resolvedAt u of None \<Rightarrow> resolvedAt a | Some t \<Rightarrow> Some t) \<rparr>"

text \<open>\<open>updateAlert\<close>: updates the rows with the given id and returns the first of them
  (\<open>undefined\<close> when there is none). An update object with no key makes \<open>.set\<close> throw
  before the database is reached.\<close>

definition updateAlert :: "uuid \<Rightarrow> alertUpdates \<Rightarrow> db \<Rightarrow> error + (alert option \<times> db)" where
  "updateAlert i u d =
     (if upd_isRead u = None \<and> upd_isResolved u = None \<and> upd_resolvedBy u = None \<and>
         upd_resolvedAt u = None then Inl (Error ''No values to set'')
      else if UpdateAlert \<in> down d then Inl (DbError UpdateAlert)
      else (let rows = map (\<lambda>a. if alert_id a = i then setAlert u a else a) (alerts d)
            in Inr (case filter (\<lambda>a. alert_id a = i) rows of [] \<Rightarrow> None | a # _ \<Rightarrow> Some a,
                    d\<lparr>alerts := rows\<rparr>)))"

section \<open>Analytics service (server/services/analyticsService.ts)\<close>

subsection \<open>JavaScript numbers\<close>

text \<open>
  A \<open>number\<close> is an IEEE 754 double. It is modelled by the real number it holds, and
  each arithmetic operation by the exact operation followed by rounding to the nearest
  double, ties to the even significand: 53 bits of significand, exponents down to the
  subnormal range. Results beyond the largest double, which the source turns into
  \<open>Infinity\<close>, are not modelled: they stay finite here. Neither is \<open>NaN\<close>: every
  division of the embedded code has a divisor that is not zero (100, the two previous
  points, a current value above zero).
\<close>

definition roundEven :: "real \<Rightarrow> int" where
  "roundEven q =
     (let f = \<lfloor>q\<rfloor>; r = q - of_int f
      in if r < 1 / 2 then f else if r > 1 / 2 then f + 1 else if even f then f else f + 1)"

text \<open>The distance between neighbouring doubles around \<open>x\<close>.\<close>

definition ulp :: "real \<Rightarrow> real" where
  "ulp x = 2 powr (of_int (max \<lfloor>log 2 \<bar>x\<bar>\<rfloor> (- 1022)) - 52)"

definition rnd :: "real \<Rightarrow> real" where
  "rnd x = (if x = 0 then 0 else of_int (roundEven (x / ulp x)) * ulp x)"

definition fadd :: "real \<Rightarrow> real \<Rightarrow> real" where
  "fadd x y = rnd (x + y)"

definition fsub :: "real \<Rightarrow> real \<Rightarrow> real" where
  "fsub x y = rnd (x - y)"

definition fmul :: "real \<Rightarrow> real \<Rightarrow> real" where
  "fmul x y = rnd (x * y)"

definition fdiv :: "real \<Rightarrow> real \<Rightarrow> real" where
  "fdiv x y = rnd (x / y)"

text \<open>\<open>Math.sqrt\<close> is correctly rounded; \<open>Math.pow\<close> with a small natural exponent is
  taken to be correctly rounded as well.\<close>

definition Math_sqrt :: "real \<Rightarrow> real" where
  "Math_sqrt x = rnd (sqrt x)"

definition Math_pow :: "real \<Rightarrow> nat \<Rightarrow> real" where
  "Math_pow x n = rnd (x ^ n)"

text \<open>\<open>parseFloat\<close> of the decimal string of a column: the nearest double.\<close>

definition parseFloat :: "real \<Rightarrow> real" where
  "parseFloat v = rnd v"

text \<open>A real given where the source takes a \<open>number\<close> from outside, as an argument or as
  a numeral of a jsonb value or of a request body, stands for the double nearest to it.\<close>

definition numberOf :: "real \<Rightarrow> real" where
  "numberOf v = rnd v"

subsection \<open>JavaScript helpers\<close>

text \<open>\<open>Math.round\<close> rounds to the nearest integer, a half towards plus infinity.\<close>

definition Math_round :: "real \<Rightarrow> real" where
  "Math_round x = of_int \<lfloor>x + 1 / 2\<rfloor>"

definition Math_ceil :: "real \<Rightarrow> int" where
  "Math_ceil x = \<lceil>x\<rceil>"

text \<open>\<open>Array.prototype.slice(start, end)\<close>: negative indices count from the end, both
  are clamped to the array, an absent \<open>end\<close> is the length.\<close>

definition slice :: "'a list \<Rightarrow> int \<Rightarrow> int option \<Rightarrow> 'a list" where
  "slice xs start end' =
     (let n = int (length xs);
          s = (if start < 0 then max (n + start) 0 else min start n);
          e = (case end' of None \<Rightarrow> n
               | Some e0 \<Rightarrow> if e0 < 0 then max (n + e0) 0 else min e0 n)
      in take (nat (e - s)) (drop (nat s) xs))"

subsection \<open>checkThresholds\<close>

text \<open>\<open>Math.ceil((new Date().getMonth() + 1) / 3)\<close>.\<close>

definition currentQuarter :: "date \<Rightarrow> int" where
  "currentQuarter now = Math_ceil ((real_of_int (getMonth now) + 1) / 3)"

text \<open>
  The branch of checkThresholds that picks the alert (source lines 187 to 208): the alert
  type, the severity and the title. The empty type means that no branch matched.
\<close>

definition determineAlert :: "string \<Rightarrow> threshold \<Rightarrow> real \<Rightarrow> real \<Rightarrow> string \<times> severity \<times> string" where
  "determineAlert name th tv av =
     (if av < fdiv (fmul (red th) tv) 100 then
        (''threshold_breach'', critical, ''Critical: '' @ name @ '' Below Red Threshold'')
      else if av < fdiv (fmul (amber th) tv) 100 then
        (''threshold_breach'', high, ''Warning: '' @ name @ '' Below Amber Threshold'')
      else if av > fmul tv (rnd 1.1) then
        (''target_exceeded'', low, ''Success: '' @ name @ '' Exceeded Target'')
      else ('''', low, ''''))"

text \<open>\<open>target.threshold\<close>: the jsonb value of the column, as the driver parses it.\<close>

definition jsonThreshold :: "threshold \<Rightarrow> threshold" where
  "jsonThreshold th = \<lparr> green = numberOf (green th), amber = numberOf (amber th),
                        red = numberOf (red th) \<rparr>"

text \<open>The body of the \<open>try\<close> block: \<open>Inl\<close> is an exception thrown inside it.\<close>

definition checkThresholds_try :: "uuid \<Rightarrow> date \<Rightarrow> db \<Rightarrow> uuid \<Rightarrow> real \<Rightarrow> error + db" where
  "checkThresholds_try newId now d kpiId av =
     (case getKPI d kpiId of
        Inl e \<Rightarrow> Inl e
      | Inr None \<Rightarrow> Inr d
      | Inr (Some k) \<Rightarrow>
          (case getTargets d kpiId (getFullYear now) (Some (currentQuarter now)) of
             Inl e \<Rightarrow> Inl e
           | Inr ts \<Rightarrow>
               if length ts = 0 then Inr d
               else (let tgt = hd ts;
                         th = jsonThreshold (target_threshold tgt);
                         tv = parseFloat (targetValue tgt)
                     in (case determineAlert (kpi_name k) th tv (numberOf av) of
                           (alertType, sev, title) \<Rightarrow>
                             if alertType \<noteq> '''' then
                               (case createAlert newId now
                                       \<lparr> ins_type = alertType, ins_severity = sev,
                                         ins_title = title, ins_kpiId = Some kpiId,
                                         ins_departmentId = Some (kpi_departmentId k),
                                         ins_triggeredBy = None,
                                         ins_isRead = Some False,
                                         ins_isResolved = Some False,
                                         ins_resolvedBy = None, ins_resolvedAt = None \<rparr> d of
                                  Inl e \<Rightarrow> Inl e
                                | Inr (_, d') \<Rightarrow> Inr d')
                             else Inr d))))"

text \<open>
  checkThresholds: the \<open>catch\<close> clause logs the exception and returns, so the promise
  resolves; the database is the one the \<open>try\<close> block left behind (the only write is the
  last statement of the block, so a failing block leaves the database as it was).
\<close>

definition checkThresholds :: "uuid \<Rightarrow> date \<Rightarrow> db \<Rightarrow> uuid \<Rightarrow> real \<Rightarrow> error + db" where
  "checkThresholds newId now d kpiId av =
     (case checkThresholds_try newId now d kpiId av of
        Inl e \<Rightarrow> Inr d
      | Inr d' \<Rightarrow> Inr d')"

text \<open>
  The band a submission falls in, read off the branch taken: below the red cut-off
  (critical breach), below the amber cut-off (high breach), no alert, target exceeded.
\<close>

definition bandRank :: "string \<times> severity \<times> string \<Rightarrow> nat" where
  "bandRank r =
     (case r of (alertType, sev, _) \<Rightarrow>
        if alertType = ''threshold_breach'' then (if sev = critical then 0 else 1)
        else if alertType = ''target_exceeded'' then 3
        else 2)"

subsection \<open>Historical series\<close>

text \<open>
  The periods visited by the two nested loops of detectAnomalies and generateForecast:
  last year and this year, quarters 1 to 4, the inner loop left at the first quarter of
  the current year beyond \<open>Math.ceil(new Date().getMonth() / 3)\<close>.
\<close>

definition historyPeriods :: "date \<Rightarrow> (int \<times> int) list" where
  "historyPeriods now =
     concat (map (\<lambda>year. map (\<lambda>quarter. (year, quarter))
                    (takeWhile (\<lambda>quarter. \<not> (year = getFullYear now \<and>
                                    quarter > Math_ceil (real_of_int (getMonth now) / 3)))
                       [1, 2, 3, 4]))
               [getFullYear now - 1, getFullYear now])"

text \<open>The loop body: the value of the first actual of each period that has one. A failing
  query throws out of the loop.\<close>

fun gatherHistory :: "db \<Rightarrow> uuid \<Rightarrow> (int \<times> int) list \<Rightarrow> error + real list" where
  "gatherHistory d kpiId [] = Inr []"
| "gatherHistory d kpiId ((year, quarter) # ps) =
     (case getActuals d kpiId year (Some quarter) of
        Inl e \<Rightarrow> Inl e
      | Inr rows \<Rightarrow>
          (case gatherHistory d kpiId ps of
             Inl e \<Rightarrow> Inl e
           | Inr vs \<Rightarrow>
               Inr (if length rows > 0 then parseFloat (actualValue (hd rows)) # vs else vs)))"

subsection \<open>detectAnomalies\<close>

definition detectAnomalies_try :: "uuid \<Rightarrow> date \<Rightarrow> db \<Rightarrow> uuid \<Rightarrow> error + (bool \<times> db)" where
  "detectAnomalies_try newId now d kpiId =
     (case gatherHistory d kpiId (historyPeriods now) of
        Inl e \<Rightarrow> Inl e
      | Inr historicalData \<Rightarrow>
          if length historicalData < 3 then Inr (False, d)
          else (let recent = hd (slice historicalData (- 1) None);
                    previous = slice historicalData (- 3) (Some (- 1))
                in if length previous = 0 then Inr (False, d)
                   else (let avgPrevious = fdiv (foldl (\<lambda>sum val. fadd sum val) 0 previous)
                                             (real (length previous));
                             stdDev = Math_sqrt
                                        (fdiv (foldl (\<lambda>sum val. fadd sum
                                                        (Math_pow (fsub val avgPrevious) 2))
                                                 0 previous)
                                           (real (length previous)));
                             isAnomaly = (\<bar>fsub recent avgPrevious\<bar> > fmul 2 stdDev)
                         in if isAnomaly then
                              (case getKPI d kpiId of
                                 Inl e \<Rightarrow> Inl e
                               | Inr None \<Rightarrow> Inr (isAnomaly, d)
                               | Inr (Some k) \<Rightarrow>
                                   (case createAlert newId now
                                           \<lparr> ins_type = ''anomaly_detected'',
                                             ins_severity = medium,
                                             ins_title = ''Anomaly Detected: '' @ kpi_name k,
                                             ins_kpiId = Some kpiId,
                                             ins_departmentId = Some (kpi_departmentId k),
                                             ins_triggeredBy = None,
                                             ins_isRead = Some False,
                                             ins_isResolved = Some False,
                                             ins_resolvedBy = None,
                                             ins_resolvedAt = None \<rparr> d of
                                      Inl e \<Rightarrow> Inl e
                                    | Inr (_, d') \<Rightarrow> Inr (isAnomaly, d')))
                            else Inr (isAnomaly, d))))"

text \<open>The \<open>catch\<close> clause logs the exception and returns \<open>false\<close>.\<close>

definition detectAnomalies :: "uuid \<Rightarrow> date \<Rightarrow> db \<Rightarrow> uuid \<Rightarrow> error + (bool \<times> db)" where
  "detectAnomalies newId now d kpiId =
     (case detectAnomalies_try newId now d kpiId of
        Inl e \<Rightarrow> Inr (False, d)
      | Inr r \<Rightarrow> Inr r)"

text \<open>
  The criterion in the words of the specification, evaluated in the arithmetic of the
  source: the mean and the population standard deviation of two points.
\<close>

definition meanOfTwo :: "real \<Rightarrow> real \<Rightarrow> real" where
  "meanOfTwo a b = fdiv (fadd (fadd 0 a) b) 2"

definition stdDevOfTwo :: "real \<Rightarrow> real \<Rightarrow> real" where
  "stdDevOfTwo a b =
     Math_sqrt (fdiv (fadd (fadd 0 (Math_pow (fsub a (meanOfTwo a b)) 2))
                        (Math_pow (fsub b (meanOfTwo a b)) 2)) 2)"

subsection \<open>generateForecast\<close>

text \<open>The regression and the projection are modelled over the reals, without the rounding
  of each operation: a decimal fraction of the model stands for the double nearest to
  it. On the integer series that the theorems evaluate, the sums, the slope, the intercept
  and the predicted values are integers, which the source computes exactly, and the
  confidences of the source are the doubles nearest to 1, 0.9, 0.8 and 0.7.\<close>

datatype trend = increasing | decreasing | stable

text \<open>A forecast point. Its \<open>period\<close> label, formatted from the wall clock, is left out.\<close>

record forecastPoint =
  predictedValue :: real
  confidence :: real

record forecastResult =
  fr_kpiId :: uuid
  forecast :: "forecastPoint list"
  trend :: trend
  recommendation :: string

definition generateForecast_try :: "date \<Rightarrow> db \<Rightarrow> uuid \<Rightarrow> error + forecastResult" where
  "generateForecast_try now d kpiId =
     (case gatherHistory d kpiId (historyPeriods now) of
        Inl e \<Rightarrow> Inl e
      | Inr historicalData \<Rightarrow>
          if length historicalData < 2 then
            Inl (Error ''Insufficient historical data for forecasting'')
          else (let n = real (length historicalData);
                    sumX = foldl (\<lambda>sum (index, v). sum + real index) 0
                             (enumerate 0 historicalData);
                    sumY = foldl (\<lambda>sum (index, v). sum + v) 0 (enumerate 0 historicalData);
                    sumXY = foldl (\<lambda>sum (index, v). sum + real index * v) 0
                              (enumerate 0 historicalData);
                    sumXX = foldl (\<lambda>sum (index, v). sum + real index * real index) 0
                              (enumerate 0 historicalData);
                    slope = (n * sumXY - sumX * sumY) / (n * sumXX - sumX * sumX);
                    intercept = (sumY - slope * sumX) / n;
                    points = map (\<lambda>i. let nextIndex = real (length historicalData + i);
                                           predicted = intercept + slope * nextIndex;
                                           conf = max 0.6 (1 - real i * 0.1)
                                       in \<lparr> predictedValue = max 0 predicted,
                                            confidence = Math_round (conf * 100) / 100 \<rparr>)
                               [0, 1, 2, 3];
                    tr = (if slope > 0.5 then increasing
                          else if slope < - 0.5 then decreasing else stable);
                    rec = (if tr = decreasing then
                             ''Performance is trending downward. Consider implementing corrective measures to improve KPI performance.''
                           else if tr = increasing then
                             ''Performance is trending upward. Continue current strategies and consider scaling successful initiatives.''
                           else
                             ''Performance is stable. Monitor for any changes and consider optimization opportunities.'')
                in Inr \<lparr> fr_kpiId = kpiId, forecast = points, trend = tr,
                         recommendation = rec \<rparr>))"

text \<open>The \<open>catch\<close> clause rethrows every exception as one fixed error.\<close>

definition generateForecast :: "date \<Rightarrow> db \<Rightarrow> uuid \<Rightarrow> error + forecastResult" where
  "generateForecast now d kpiId =
     (case generateForecast_try now d kpiId of
        Inl e \<Rightarrow> Inl (Error ''Failed to generate forecast'')
      | Inr r \<Rightarrow> Inr r)"

subsection \<open>runScenarioTest\<close>

datatype impact = positive | negative | neutral

text \<open>An element of \<open>scenarioData\<close>: both keys may be absent.\<close>

record scenarioInput =
  sc_name :: "string option"
  sc_value :: "real option"

record scenarioOutcome =
  so_name :: string
  inputValue :: real
  projectedOutcome :: real
  impact :: impact
  so_confidence :: real

record scenarioTestResult =
  st_kpiId :: uuid
  scenarios :: "scenarioOutcome list"
  recommendations :: "string list"

text \<open>A natural number in decimal, as a template literal prints it.\<close>

fun showNat :: "nat \<Rightarrow> string" where
  "showNat n = (if n < 10 then [''0123456789'' ! n]
                else showNat (n div 10) @ [''0123456789'' ! (n mod 10)])"

text \<open>\<open>Array.prototype.join\<close>.\<close>

fun join :: "string \<Rightarrow> string list \<Rightarrow> string" where
  "join sep [] = ''''"
| "join sep [x] = x"
| "join sep (x # y # ys) = x @ sep @ join sep (y # ys)"

definition changePercent :: "real \<Rightarrow> real \<Rightarrow> real" where
  "changePercent currentValue inputV =
     (if currentValue > 0 then fmul (fdiv (fsub inputV currentValue) currentValue) 100 else 0)"

text \<open>The callback of \<open>scenarioData.map\<close>.\<close>

definition scenarioOf :: "real \<Rightarrow> nat \<times> scenarioInput \<Rightarrow> scenarioOutcome" where
  "scenarioOf currentValue p =
     (case p of (index, scenario) \<Rightarrow>
        (let inputV = (case sc_value scenario of None \<Rightarrow> 0 | Some v \<Rightarrow> numberOf v);
             change = changePercent currentValue inputV;
             projected = fmul inputV (fadd 1 (fmul change (rnd 0.1)));
             imp = (if change > 5 then positive
                    else if change < - 5 then negative else neutral);
             conf = max 0.5 (fsub 1 (fdiv \<bar>change\<bar> 100))
         in \<lparr> so_name = (case sc_name scenario of
                            None \<Rightarrow> ''Scenario '' @ showNat (index + 1)
                          | Some s \<Rightarrow> if s = '''' then ''Scenario '' @ showNat (index + 1)
                                      else s),
              inputValue = inputV,
              projectedOutcome = fdiv (Math_round (fmul projected 100)) 100,
              impact = imp,
              so_confidence = fdiv (Math_round (fmul conf 100)) 100 \<rparr>))"

definition runScenarioTest_try ::
    "date \<Rightarrow> db \<Rightarrow> uuid \<Rightarrow> scenarioInput list \<Rightarrow> error + scenarioTestResult" where
  "runScenarioTest_try now d kpiId scenarioData =
     (case getKPI d kpiId of
        Inl e \<Rightarrow> Inl e
      | Inr None \<Rightarrow> Inl (Error ''KPI not found'')
      | Inr (Some k) \<Rightarrow>
          (case getActuals d kpiId (getFullYear now) (Some (currentQuarter now)) of
             Inl e \<Rightarrow> Inl e
           | Inr currentActuals \<Rightarrow>
               (let currentValue = (if length currentActuals > 0
                                    then parseFloat (actualValue (hd currentActuals)) else 0);
                    scs = map (scenarioOf currentValue) (enumerate 0 scenarioData);
                    positiveScenarios = filter (\<lambda>s. impact s = positive) scs;
                    negativeScenarios = filter (\<lambda>s. impact s = negative) scs;
                    recs1 = (if length positiveScenarios > 0 then
                               [''Consider implementing strategies similar to: '' @
                                  join '', '' (map so_name positiveScenarios)]
                             else []);
                    recs2 = (if length negativeScenarios > 0 then
                               recs1 @ [''Avoid strategies that could lead to: '' @
                                  join '', '' (map so_name negativeScenarios)]
                             else recs1);
                    recs3 = (if length recs2 = 0 then
                               recs2 @ [''All scenarios show neutral impact. Consider more aggressive strategies for improvement.'']
                             else recs2)
                in Inr \<lparr> st_kpiId = kpiId, scenarios = scs, recommendations = recs3 \<rparr>)))"

definition runScenarioTest ::
    "date \<Rightarrow> db \<Rightarrow> uuid \<Rightarrow> scenarioInput list \<Rightarrow> error + scenarioTestResult" where
  "runScenarioTest now d kpiId scenarioData =
     (case runScenarioTest_try now d kpiId scenarioData of
        Inl e \<Rightarrow> Inl (Error ''Failed to run scenario test'')
      | Inr r \<Rightarrow> Inr r)"

section \<open>Department performance (server/storage.ts)\<close>

record departmentPerformance =
  dp_id :: uuid
  dp_name :: string
  dp_code :: string
  score :: int
  dp_status :: status
  kpiCount :: int
  dp_trend :: int

text \<open>
  \<open>Math.random()\<close> is the sequence of values its successive calls return; the position
  in the sequence is threaded through the callback of \<open>depts.map\<close>. The status expression
  draws a second number only when the first is not above 0.7.
\<close>

type_synonym rng = "nat \<Rightarrow> real"

fun mockPerformance :: "rng \<Rightarrow> nat \<Rightarrow> department list \<Rightarrow> departmentPerformance list" where
  "mockPerformance rand i [] = []"
| "mockPerformance rand i (dept # rest) =
     (let sc = \<lfloor>rand i * 40\<rfloor> + 60;
          st = (if rand (i + 1) > 0.7 then Green
                else if rand (i + 2) > 0.4 then Amber else Red);
          j = (if rand (i + 1) > 0.7 then i + 2 else i + 3);
          cnt = \<lfloor>rand j * 15\<rfloor> + 10;
          tr = \<lfloor>rand (j + 1) * 20\<rfloor> - 10
      in \<lparr> dp_id = dept_id dept, dp_name = dept_name dept, dp_code = dept_code dept,
           score = sc, dp_status = st, kpiCount = cnt, dp_trend = tr \<rparr>
         # mockPerformance rand (j + 2) rest)"

definition getDepartmentPerformance ::
    "rng \<Rightarrow> db \<Rightarrow> int \<Rightarrow> int \<Rightarrow> error + departmentPerformance list" where
  "getDepartmentPerformance rand d year quarter =
     (case getDepartments d of
        Inl e \<Rightarrow> Inl e
      | Inr depts \<Rightarrow> Inr (mockPerformance rand 0 depts))"

section \<open>Alert route (server/routes.ts)\<close>

text \<open>The body of \<open>PATCH /api/alerts/:id\<close>: each flag is a boolean or absent. The route
  parameter is a uuid, and so is the id of the authenticated user.\<close>

record alertPatchBody =
  body_isRead :: "bool option"
  body_isResolved :: "bool option"

datatype response = AlertJson "alert option" | Failed nat string

text \<open>The \<open>updates\<close> object the handler builds (source lines 363 to 369).\<close>

definition alertUpdatesOf :: "uuid \<Rightarrow> date \<Rightarrow> alertPatchBody \<Rightarrow> alertUpdates" where
  "alertUpdatesOf userId now body =
     (let updates0 = \<lparr> upd_isRead = None, upd_isResolved = None, upd_resolvedBy = None,
                       upd_resolvedAt = None \<rparr>;
          updates1 = (case body_isRead body of
                        None \<Rightarrow> updates0
                      | Some v \<Rightarrow> updates0\<lparr>upd_isRead := Some v\<rparr>)
      in (case body_isResolved body of
            None \<Rightarrow> updates1
          | Some v \<Rightarrow> updates1\<lparr>upd_isResolved := Some v, upd_resolvedBy := Some userId,
                               upd_resolvedAt := Some now\<rparr>))"

definition patchAlert :: "uuid \<Rightarrow> date \<Rightarrow> uuid \<Rightarrow> alertPatchBody \<Rightarrow> db \<Rightarrow> response \<times> db" where
  "patchAlert userId now i body d =
     (case updateAlert i (alertUpdatesOf userId now body) d of
        Inl e \<Rightarrow> (Failed 500 ''Failed to update alert'', d)
      | Inr (a, d') \<Rightarrow> (AlertJson a, d'))"

section \<open>Writes to the alert table\<close>

text \<open>
  The alert table is written by three operations of the server: checkThresholds and
  detectAnomalies, the only callers of \<open>storage.createAlert\<close>, and the alert route, the
  only caller of \<open>storage.updateAlert\<close>.
\<close>

datatype alertWrite =
    Evaluate uuid real
  | Detect uuid
  | Patch uuid uuid alertPatchBody

definition applyWrite :: "uuid \<Rightarrow> date \<Rightarrow> alertWrite \<Rightarrow> db \<Rightarrow> db" where
  "applyWrite newId now w d =
     (case w of
        Evaluate kpiId av \<Rightarrow>
          (case checkThresholds newId now d kpiId av of Inl e \<Rightarrow> d | Inr d' \<Rightarrow> d')
      | Detect kpiId \<Rightarrow>
          (case detectAnomalies newId now d kpiId of Inl e \<Rightarrow> d | Inr (flag, d') \<Rightarrow> d')
      | Patch userId i body \<Rightarrow> snd (patchAlert userId now i body d))"

section \<open>Example data\<close>


definition now0 :: date where
  "now0 = \<lparr> getFullYear = 2025, getMonth = 4, getTime = 1746100000000 \<rparr>"

definition dept0 :: department where
  "dept0 = \<lparr> dept_id = ''d1'', dept_name = ''Operations'', dept_code = ''OPS'',
             dept_isActive = True \<rparr>"

definition pillar0 :: pillar where
  "pillar0 = \<lparr> pillar_id = ''p1'', pillar_name = ''Growth'' \<rparr>"

definition kpi0 :: kpi where
  "kpi0 = \<lparr> kpi_id = ''k1'', kpi_name = ''Uptime'', kpi_pillarId = ''p1'',
            kpi_departmentId = ''d1'', kpi_isActive = True \<rparr>"

definition target0 :: target where
  "target0 = \<lparr> target_id = ''t1'', target_kpiId = ''k1'', target_year = 2025,
               target_quarter = Some 2, targetValue = 100,
               target_threshold = \<lparr> green = 80, amber = 60, red = 40 \<rparr> \<rparr>"

text \<open>One KPI with its target for the second quarter of 2025, no alert yet.\<close>

definition db0 :: db where
  "db0 = \<lparr> departments = [dept0], pillars = [pillar0], kpis = [kpi0], targets = [target0],
           actuals = [], alerts = [], down = {} \<rparr>"

text \<open>The same database while the alert store is unavailable.\<close>

definition db0_down :: db where
  "db0_down = db0\<lparr>down := {CreateAlert}\<rparr>"


text \<open>Targets of four consecutive quarters up to the current one, and a database that
  holds one actual for each value of a series, in that order of quarters.\<close>

definition mkTarget :: "uuid \<Rightarrow> int \<Rightarrow> int \<Rightarrow> target" where
  "mkTarget i y q = target0\<lparr>target_id := i, target_year := y, target_quarter := Some q\<rparr>"

definition periodTargets :: "target list" where
  "periodTargets = [mkTarget ''t3'' 2024 3, mkTarget ''t4'' 2024 4, mkTarget ''t5'' 2025 1,
                    target0]"

definition seriesDb :: "real list \<Rightarrow> db" where
  "seriesDb vs =
     db0\<lparr>targets := periodTargets,
         actuals := map (\<lambda>(t, v). \<lparr> actual_id = ''a-'' @ target_id t, actual_kpiId = ''k1'',
                                    actual_targetId = target_id t, actualValue = v \<rparr>)
                      (zip periodTargets vs)\<rparr>"

text \<open>Two sequences of random numbers.\<close>

definition randZero :: rng where
  "randZero i = 0"

definition randHalf :: rng where
  "randHalf i = 1 / 2"

text \<open>An unread, unresolved alert and a database that holds it.\<close>

definition alert0 :: alert where
  "alert0 = \<lparr> alert_id = ''a1'', alert_type = ''threshold_breach'', alert_severity = critical,
              alert_title = ''Critical: Uptime Below Red Threshold'',
              alert_kpiId = Some ''k1'', alert_departmentId = Some ''d1'',
              alert_triggeredBy = None, isRead = False, isResolved = False,
              resolvedBy = None, resolvedAt = None, alert_createdAt = now0 \<rparr>"

definition db_alert :: db where
  "db_alert = db0\<lparr>alerts := [alert0]\<rparr>"

definition later0 :: date where
  "later0 = \<lparr> getFullYear = 2025, getMonth = 5, getTime = 1749000000000 \<rparr>"

text \<open>The alert that anomaly detection inserts for the example KPI, and a database in
  which the KPI's department row is missing, so that the joined KPI lookup finds nothing.\<close>

definition anomalyAlert0 :: alert where
  "anomalyAlert0 = \<lparr> alert_id = ''a2'', alert_type = ''anomaly_detected'',
                     alert_severity = medium, alert_title = ''Anomaly Detected: Uptime'',
                     alert_kpiId = Some ''k1'', alert_departmentId = Some ''d1'',
                     alert_triggeredBy = None, isRead = False, isResolved = False,
                     resolvedBy = None, resolvedAt = None, alert_createdAt = now0 \<rparr>"

definition db_orphan :: db where
  "db_orphan = (seriesDb [50, 52, 90])\<lparr>departments := []\<rparr>"

text \<open>Request bodies of the alert route: mark read, mark resolved, and a body that
  carries \<open>isResolved: false\<close>.\<close>

definition markRead :: alertPatchBody where
  "markRead = \<lparr> body_isRead = Some True, body_isResolved = None \<rparr>"

definition markResolved :: alertPatchBody where
  "markResolved = \<lparr> body_isRead = None, body_isResolved = Some True \<rparr>"

definition reopen :: alertPatchBody where
  "reopen = \<lparr> body_isRead = None, body_isResolved = Some False \<rparr>"

section \<open>Rounding to double precision\<close>

lemma roundEven_of_int [simp]: "roundEven (of_int n) = n"
  by (simp add: roundEven_def)

lemma roundEven_near:
  assumes "\<bar>q - of_int n\<bar> < 1 / 2"
  shows "roundEven q = n"
proof -
  have "real_of_int n - 1 \<le> q" and "q < real_of_int n + 1"
    using assms by linarith+
  then have lo: "of_int (n - 1) \<le> q" and hi: "q < of_int (n + 1)"
    by simp_all
  have "n - 1 \<le> \<lfloor>q\<rfloor>" using lo by (simp only: le_floor_iff)
  moreover have "\<lfloor>q\<rfloor> < n + 1" using hi by (simp only: floor_less_iff)
  ultimately have "\<lfloor>q\<rfloor> = n \<or> \<lfloor>q\<rfloor> = n - 1" by linarith
  then show ?thesis
  proof
    assume f: "\<lfloor>q\<rfloor> = n"
    have "q - of_int n < 1 / 2" using assms by linarith
    then show ?thesis by (simp add: roundEven_def f)
  next
    assume f: "\<lfloor>q\<rfloor> = n - 1"
    have "q - of_int n > - 1 / 2" using assms by linarith
    then have "q - of_int (n - 1) > 1 / 2" by simp
    then show ?thesis by (simp add: roundEven_def f Let_def)
  qed
qed

lemma roundEven_error: "\<bar>of_int (roundEven q) - q\<bar> \<le> 1 / 2"
  by (auto simp: roundEven_def Let_def abs_le_iff)

lemma ulp_pos: "0 < ulp x"
  by (simp add: ulp_def)

lemma binade:
  assumes "x \<noteq> 0"
  shows "2 powr of_int \<lfloor>log 2 \<bar>x\<bar>\<rfloor> \<le> \<bar>x\<bar>" and "\<bar>x\<bar> < 2 powr (of_int \<lfloor>log 2 \<bar>x\<bar>\<rfloor> + 1)"
proof -
  have p: "0 < \<bar>x\<bar>" using assms by simp
  have "of_int \<lfloor>log 2 \<bar>x\<bar>\<rfloor> \<le> log 2 \<bar>x\<bar>" by simp
  then show "2 powr of_int \<lfloor>log 2 \<bar>x\<bar>\<rfloor> \<le> \<bar>x\<bar>"
    using le_log_iff [of 2 "\<bar>x\<bar>" "of_int \<lfloor>log 2 \<bar>x\<bar>\<rfloor>"] p by simp
  have "log 2 \<bar>x\<bar> < of_int \<lfloor>log 2 \<bar>x\<bar>\<rfloor> + 1" by linarith
  then show "\<bar>x\<bar> < 2 powr (of_int \<lfloor>log 2 \<bar>x\<bar>\<rfloor> + 1)"
    using log_less_iff [of 2 "\<bar>x\<bar>" "of_int \<lfloor>log 2 \<bar>x\<bar>\<rfloor> + 1"] p by simp
qed

lemma floor_log_eq:
  assumes "2 powr of_int e \<le> \<bar>x\<bar>" and "\<bar>x\<bar> < 2 powr (of_int e + 1)"
  shows "\<lfloor>log 2 \<bar>x\<bar>\<rfloor> = e"
proof -
  have "0 < 2 powr real_of_int e" by simp
  then have p: "0 < \<bar>x\<bar>" using assms(1) by linarith
  have "of_int e \<le> log 2 \<bar>x\<bar>"
    using le_log_iff [of 2 "\<bar>x\<bar>" "of_int e"] assms(1) p by simp
  moreover have "log 2 \<bar>x\<bar> < of_int e + 1"
    using log_less_iff [of 2 "\<bar>x\<bar>" "of_int e + 1"] assms(2) p by simp
  ultimately show ?thesis by linarith
qed

text \<open>Numbers with a significand of at most 53 bits are not rounded.\<close>

lemma rnd_exact:
  assumes "\<bar>m\<bar> < 2 ^ 53" and "- 1074 \<le> k"
  shows "rnd (of_int m * 2 powr of_int k) = of_int m * 2 powr of_int k"
proof (cases "m = 0")
  case True
  then show ?thesis by (simp add: rnd_def)
next
  case False
  define x where "x = of_int m * 2 powr real_of_int k"
  have x0: "x \<noteq> 0" using False by (simp add: x_def)
  define e where "e = max \<lfloor>log 2 \<bar>x\<bar>\<rfloor> (- 1022)"
  have u: "ulp x = 2 powr (of_int e - 52)" by (simp add: ulp_def e_def)
  have "\<bar>x\<bar> = of_int \<bar>m\<bar> * 2 powr real_of_int k"
    by (simp add: x_def abs_mult)
  also have "\<dots> < 2 ^ 53 * 2 powr real_of_int k"
  proof -
    have "real_of_int \<bar>m\<bar> < 2 ^ 53" using assms(1) by (metis of_int_less_numeral_power_cancel_iff)
    then show ?thesis by simp
  qed
  also have "\<dots> = 2 powr (of_int (k + 52) + 1)"
    by (simp add: powr_add powr_realpow [symmetric] algebra_simps)
  finally have lt: "\<bar>x\<bar> < 2 powr (of_int (k + 52) + 1)" .
  have "2 powr real_of_int \<lfloor>log 2 \<bar>x\<bar>\<rfloor> < 2 powr (real_of_int (k + 52) + 1)"
    using binade(1) [OF x0] lt by linarith
  then have "real_of_int \<lfloor>log 2 \<bar>x\<bar>\<rfloor> < real_of_int (k + 52) + 1"
    by simp
  then have "\<lfloor>log 2 \<bar>x\<bar>\<rfloor> < k + 52 + 1"
    by linarith
  then have ek: "e - 52 \<le> k" using assms(2) by (simp add: e_def)
  define j where "j = nat (k - (e - 52))"
  have kj: "real_of_int k = of_int (e - 52) + real j" using ek by (simp add: j_def)
  have xe: "x = (of_int m * 2 powr real j) * 2 powr (of_int e - 52)"
    by (simp add: x_def kj powr_add)
  have "x / ulp x = x / 2 powr (of_int e - 52)"
    by (simp only: u)
  also have "\<dots> = of_int m * 2 powr (real j)"
    by (subst xe) simp
  also have "\<dots> = of_int (m * 2 ^ j)"
    by (simp add: powr_realpow)
  finally have q: "x / ulp x = of_int (m * 2 ^ j)" .
  have "rnd x = of_int (m * 2 ^ j) * ulp x"
    using x0 by (simp add: rnd_def q del: of_int_mult of_int_power)
  also have "\<dots> = x"
    using q ulp_pos [of x] by (metis nonzero_eq_divide_eq less_numeral_extra(3) order_less_irrefl)
  finally show ?thesis by (simp add: x_def)
qed


lemma rnd_error: "\<bar>rnd x - x\<bar> \<le> ulp x / 2"
proof (cases "x = 0")
  case True
  then show ?thesis using ulp_pos [of x] by (simp add: rnd_def)
next
  case False
  have "rnd x - x = (of_int (roundEven (x / ulp x)) - x / ulp x) * ulp x"
    using False ulp_pos [of x] by (simp add: rnd_def field_simps)
  then have "\<bar>rnd x - x\<bar> = \<bar>of_int (roundEven (x / ulp x)) - x / ulp x\<bar> * ulp x"
    using ulp_pos [of x] by (simp add: abs_mult)
  also have "\<dots> \<le> (1 / 2) * ulp x"
    using roundEven_error [of "x / ulp x"] ulp_pos [of x] by (intro mult_right_mono) simp_all
  finally show ?thesis by simp
qed

text \<open>Rounding a number whose binade is known.\<close>

lemma rnd_evalI:
  assumes "u = 2 powr (of_int e - 52)" and "u * 2 ^ 52 \<le> \<bar>x\<bar>" and "\<bar>x\<bar> < u * 2 ^ 53"
    and "- 1022 \<le> e" and "roundEven (x / u) = n"
  shows "rnd x = of_int n * u"
proof -
  have p52: "u * 2 ^ 52 = 2 powr of_int e"
    by (simp add: assms(1) powr_diff powr_realpow [symmetric])
  have p53: "u * 2 ^ 53 = 2 powr (of_int e + 1)"
    by (simp add: assms(1) powr_diff powr_add powr_realpow [symmetric])
  have "2 powr of_int e \<le> \<bar>x\<bar>" and "\<bar>x\<bar> < 2 powr (of_int e + 1)"
    using assms(2,3) unfolding p52 p53 by blast+
  then have fl: "\<lfloor>log 2 \<bar>x\<bar>\<rfloor> = e"
    by (rule floor_log_eq)
  have ux: "ulp x = u"
    using assms(4) by (simp add: ulp_def fl assms(1))
  have "0 < u" by (simp add: assms(1))
  then have "0 < \<bar>x\<bar>" using assms(2) by (smt (verit) mult_pos_pos zero_less_power)
  then have "x \<noteq> 0" by auto
  then show ?thesis by (simp add: rnd_def ux assms(5))
qed

lemma two_powr_neg_numeral [simp]: "(2 :: real) powr (- numeral n) = 1 / 2 ^ numeral n"
  by (simp add: powr_minus_divide)

lemma rnd_zero [simp]: "rnd 0 = 0"
  by (simp add: rnd_def)

lemma rnd_scaled:
  assumes "\<bar>m\<bar> < 2 ^ 53" and "j \<le> 1074"
  shows "rnd (of_int m / 2 ^ j) = of_int m / 2 ^ j"
proof -
  have "2 powr real_of_int (- int j) = 1 / 2 ^ j"
    by (simp add: powr_minus_divide powr_realpow)
  then show ?thesis
    using rnd_exact [of m "- int j"] assms by simp
qed

lemma rnd_of_int:
  assumes "\<bar>m\<bar> < 2 ^ 53"
  shows "rnd (of_int m) = of_int m"
  using rnd_scaled [of m 0] assms by simp

lemma rnd_numeral [simp]:
  assumes "(numeral n :: int) < 2 ^ 53"
  shows "rnd (numeral n) = numeral n"
  using rnd_of_int [of "numeral n"] assms by simp

text \<open>Rounding is symmetric.\<close>

lemma roundEven_minus: "roundEven (- q) = - roundEven q"
proof (cases "q \<in> \<int>")
  case True
  then obtain m where "q = of_int m" by (auto elim: Ints_cases)
  then show ?thesis
    using roundEven_of_int [of m] roundEven_of_int [of "- m"] by simp
next
  case False
  have r: "q \<noteq> of_int \<lfloor>q\<rfloor>"
    using False Ints_of_int by metis
  then have f: "\<lfloor>- q\<rfloor> = - \<lfloor>q\<rfloor> - 1"
    by (simp add: floor_minus ceiling_altdef)
  show ?thesis
    unfolding roundEven_def Let_def f using r by auto
qed

lemma rnd_minus: "rnd (- x) = - rnd x"
  by (simp add: rnd_def ulp_def roundEven_minus)

lemma rnd_one [simp]: "rnd 1 = 1"
  using rnd_of_int [of 1] by simp

lemma numberOf_numeral [simp]:
  assumes "(numeral n :: int) < 2 ^ 53"
  shows "numberOf (numeral n) = numeral n"
  using assms by (simp add: numberOf_def)

text \<open>The literal 1.1 and its product with 100, as doubles.\<close>

lemma rnd_1_1: "rnd 1.1 = 4953959590107546 / 2 ^ 52"
proof -
  have "rnd 1.1 = of_int 4953959590107546 * (1 / 2 ^ 52)"
    by (rule rnd_evalI [where e = 0]) (simp_all add: roundEven_def)
  then show ?thesis by simp
qed

lemma fmul_100_1_1: "fmul 100 (rnd 1.1) = 7740561859543041 / 2 ^ 46"
proof -
  have "rnd (100 * (4953959590107546 / 2 ^ 52)) = of_int 7740561859543041 * (1 / 2 ^ 46)"
    by (rule rnd_evalI [where e = 6]) (simp_all add: roundEven_def)
  then show ?thesis by (simp add: fmul_def rnd_1_1)
qed

section \<open>Threshold alerts\<close>

lemma getKPI_db0: "getKPI db0 ''k1'' = Inr (Some \<lparr> kpi_id = ''k1'', kpi_name = ''Uptime'', kpi_pillarId = ''p1'',
            kpi_departmentId = ''d1'', kpi_isActive = True, kd_pillar = pillar0, kd_department = dept0, kd_status = Amber, kd_progress = 75 \<rparr>)"
  by (simp add: getKPI_def db0_def kpi0_def pillar0_def dept0_def)

lemma currentQuarter_now0: "currentQuarter now0 = 2"
  by (simp add: currentQuarter_def Math_ceil_def now0_def)

lemma getFullYear_now0: "getFullYear now0 = 2025"
  by (simp add: now0_def)

lemma getTargets_db0: "getTargets db0 ''k1'' (getFullYear now0) (Some (currentQuarter now0)) = Inr [target0]"
  by (simp add: getTargets_def db0_def target0_def currentQuarter_now0 getFullYear_now0)

text \<open>What checkThresholds does once the KPI and a target are found, the alert store is
  up and the type and title fit their columns.\<close>

lemma checkThresholds_found:
  assumes "getKPI d kpiId = Inr (Some k)"
    and "getTargets d kpiId (getFullYear now) (Some (currentQuarter now)) = Inr (t # ts)"
    and "CreateAlert \<notin> down d"
    and "determineAlert (kpi_name k) (jsonThreshold (target_threshold t))
             (parseFloat (targetValue t)) (numberOf av) =
           (ty, sev, title)"
    and "length ty \<le> 50" and "length title \<le> 255"
  shows "checkThresholds newId now d kpiId av =
           (if ty \<noteq> '''' then
              Inr (d\<lparr>alerts := alerts d @
                     [\<lparr> alert_id = newId, alert_type = ty, alert_severity = sev,
                        alert_title = title, alert_kpiId = Some kpiId,
                        alert_departmentId = Some (kpi_departmentId k),
                        alert_triggeredBy = None, isRead = False, isResolved = False,
                        resolvedBy = None, resolvedAt = None, alert_createdAt = now \<rparr>]\<rparr>)
            else Inr d)"
  using assms
  by (simp add: checkThresholds_def checkThresholds_try_def createAlert_def Let_def)

lemma checkThresholds_emits:
  assumes "getKPI d kpiId = Inr (Some k)"
    and "getTargets d kpiId (getFullYear now) (Some (currentQuarter now)) = Inr (t # ts)"
    and "CreateAlert \<notin> down d"
    and "determineAlert (kpi_name k) (jsonThreshold (target_threshold t))
             (parseFloat (targetValue t)) (numberOf av) =
           (ty, sev, title)"
    and "length ty \<le> 50" and "length title \<le> 255"
    and "ty \<noteq> ''''"
  shows "\<exists>a. checkThresholds newId now d kpiId av = Inr (d\<lparr>alerts := alerts d @ [a]\<rparr>) \<and>
             alert_type a = ty \<and> alert_severity a = sev \<and> \<not> isRead a \<and> \<not> isResolved a"
proof -
  let ?row = "\<lparr> alert_id = newId, alert_type = ty, alert_severity = sev,
                alert_title = title, alert_kpiId = Some kpiId,
                alert_departmentId = Some (kpi_departmentId k),
                alert_triggeredBy = None, isRead = False, isResolved = False,
                resolvedBy = None, resolvedAt = None, alert_createdAt = now \<rparr>"
  have "checkThresholds newId now d kpiId av = Inr (d\<lparr>alerts := alerts d @ [?row]\<rparr>)"
    using checkThresholds_found [OF assms(1-6)] assms(7) by simp
  then show ?thesis
    by (intro exI [of _ ?row]) simp
qed

lemma checkThresholds_silent:
  assumes "getKPI d kpiId = Inr (Some k)"
    and "getTargets d kpiId (getFullYear now) (Some (currentQuarter now)) = Inr (t # ts)"
    and "CreateAlert \<notin> down d"
    and "determineAlert (kpi_name k) (jsonThreshold (target_threshold t))
             (parseFloat (targetValue t)) (numberOf av) =
           ('''', sev, '''')"
  shows "checkThresholds newId now d kpiId av = Inr d"
  using checkThresholds_found [OF assms] by simp

lemma checkThresholds_at_most_one:
  "\<exists>d'. checkThresholds newId now d kpiId av = Inr d' \<and>
        (d' = d \<or> (\<exists>a. d' = d\<lparr>alerts := alerts d @ [a]\<rparr>))"
  by (auto simp: checkThresholds_def checkThresholds_try_def createAlert_def Let_def
           split: sum.splits option.splits prod.splits if_splits)

text \<open>The first-match order, for every threshold triple, target and actual value.\<close>

lemma checkThresholds_order:
  assumes k: "getKPI d kpiId = Inr (Some k)"
    and t: "getTargets d kpiId (getFullYear now) (Some (currentQuarter now)) = Inr (t # ts)"
    and c: "CreateAlert \<notin> down d"
    and n: "length (kpi_name k) \<le> 224"
    and tv: "tv = rnd (targetValue t)"
    and lo: "lo = rnd (rnd (rnd (red (target_threshold t)) * tv) / 100)"
    and mid: "mid = rnd (rnd (rnd (amber (target_threshold t)) * tv) / 100)"
    and hi: "hi = rnd (tv * rnd 1.1)"
  shows "rnd av < lo \<Longrightarrow>
           \<exists>a. checkThresholds newId now d kpiId av = Inr (d\<lparr>alerts := alerts d @ [a]\<rparr>) \<and>
               alert_type a = ''threshold_breach'' \<and> alert_severity a = critical \<and>
               \<not> isRead a \<and> \<not> isResolved a"
    and "\<not> rnd av < lo \<Longrightarrow> rnd av < mid \<Longrightarrow>
           \<exists>a. checkThresholds newId now d kpiId av = Inr (d\<lparr>alerts := alerts d @ [a]\<rparr>) \<and>
               alert_type a = ''threshold_breach'' \<and> alert_severity a = high \<and>
               \<not> isRead a \<and> \<not> isResolved a"
    and "\<not> rnd av < lo \<Longrightarrow> \<not> rnd av < mid \<Longrightarrow> hi < rnd av \<Longrightarrow>
           \<exists>a. checkThresholds newId now d kpiId av = Inr (d\<lparr>alerts := alerts d @ [a]\<rparr>) \<and>
               alert_type a = ''target_exceeded'' \<and> alert_severity a = low \<and>
               \<not> isRead a \<and> \<not> isResolved a"
    and "\<not> rnd av < lo \<Longrightarrow> \<not> rnd av < mid \<Longrightarrow> \<not> hi < rnd av \<Longrightarrow>
           checkThresholds newId now d kpiId av = Inr d"
proof -
  note defs = determineAlert_def jsonThreshold_def numberOf_def parseFloat_def fmul_def fdiv_def
    tv lo mid hi
  {
    assume "rnd av < lo"
    then have "determineAlert (kpi_name k) (jsonThreshold (target_threshold t))
             (parseFloat (targetValue t)) (numberOf av) =
                 (''threshold_breach'', critical,
                  ''Critical: '' @ kpi_name k @ '' Below Red Threshold'')"
      by (simp add: defs)
    from checkThresholds_emits [OF k t c this] n
    show "\<exists>a. checkThresholds newId now d kpiId av = Inr (d\<lparr>alerts := alerts d @ [a]\<rparr>) \<and>
               alert_type a = ''threshold_breach'' \<and> alert_severity a = critical \<and>
               \<not> isRead a \<and> \<not> isResolved a"
      by simp
  }
  {
    assume "\<not> rnd av < lo" and "rnd av < mid"
    then have "determineAlert (kpi_name k) (jsonThreshold (target_threshold t))
             (parseFloat (targetValue t)) (numberOf av) =
                 (''threshold_breach'', high,
                  ''Warning: '' @ kpi_name k @ '' Below Amber Threshold'')"
      by (simp add: defs)
    from checkThresholds_emits [OF k t c this] n
    show "\<exists>a. checkThresholds newId now d kpiId av = Inr (d\<lparr>alerts := alerts d @ [a]\<rparr>) \<and>
               alert_type a = ''threshold_breach'' \<and> alert_severity a = high \<and>
               \<not> isRead a \<and> \<not> isResolved a"
      by simp
  }
  {
    assume "\<not> rnd av < lo" and "\<not> rnd av < mid" and "hi < rnd av"
    then have "determineAlert (kpi_name k) (jsonThreshold (target_threshold t))
             (parseFloat (targetValue t)) (numberOf av) =
                 (''target_exceeded'', low, ''Success: '' @ kpi_name k @ '' Exceeded Target'')"
      by (simp add: defs)
    from checkThresholds_emits [OF k t c this] n
    show "\<exists>a. checkThresholds newId now d kpiId av = Inr (d\<lparr>alerts := alerts d @ [a]\<rparr>) \<and>
               alert_type a = ''target_exceeded'' \<and> alert_severity a = low \<and>
               \<not> isRead a \<and> \<not> isResolved a"
      by simp
  }
  {
    assume "\<not> rnd av < lo" and "\<not> rnd av < mid" and "\<not> hi < rnd av"
    then have "determineAlert (kpi_name k) (jsonThreshold (target_threshold t))
             (parseFloat (targetValue t)) (numberOf av) =
                 ('''', low, '''')"
      by (simp add: defs)
    from checkThresholds_silent [OF k t c this]
    show "checkThresholds newId now d kpiId av = Inr d" .
  }
qed

text \<open>The cut-offs of the thresholds green 80, amber 60, red 40 on the target 100.\<close>

lemma cutoffs_100:
  "rnd (100 :: real) = 100"
  "rnd (rnd (40 * 100) / 100) = 40"
  "rnd (rnd (60 * 100) / 100) = 60"
  "rnd (100 * rnd 1.1) = 7740561859543041 / 2 ^ 46"
  using fmul_100_1_1 by (simp_all add: fmul_def)

lemma parseFloat_100: "parseFloat 100 = 100"
  by (simp add: parseFloat_def)

lemma jsonThreshold_target0:
  "jsonThreshold \<lparr>green = 80, amber = 60, red = 40\<rparr> = \<lparr>green = 80, amber = 60, red = 40\<rparr>"
  by (simp add: jsonThreshold_def)

lemma determineAlert_examples:
  "determineAlert n \<lparr>green = 80, amber = 60, red = 40\<rparr> 100 30 = (''threshold_breach'', critical, ''Critical: '' @ n @ '' Below Red Threshold'')"
  "determineAlert n \<lparr>green = 80, amber = 60, red = 40\<rparr> 100 50 = (''threshold_breach'', high, ''Warning: '' @ n @ '' Below Amber Threshold'')"
  "determineAlert n \<lparr>green = 80, amber = 60, red = 40\<rparr> 100 70 = ('''', low, '''')"
  "determineAlert n \<lparr>green = 80, amber = 60, red = 40\<rparr> 100 90 = ('''', low, '''')"
  "determineAlert n \<lparr>green = 80, amber = 60, red = 40\<rparr> 100 115 = (''target_exceeded'', low, ''Success: '' @ n @ '' Exceeded Target'')"
  by (simp_all add: determineAlert_def parseFloat_def fmul_def fdiv_def cutoffs_100)

text \<open>
  Claim C1, as the code has it. Every evaluation of a submission resolves and appends at
  most one alert. When the KPI and its target are found, the alert store is up and the
  KPI name has at most 224 characters, so that every title fits its column, the decision
  follows the first-match order for every threshold triple, target value and actual
  value, each read as a double, on the cut-offs as the source computes them in double
  arithmetic: an actual below red times target over 100 appends one critical
  threshold_breach; otherwise an actual below amber times target over 100 appends one high
  threshold_breach; otherwise an actual above target times 1.1 appends one low
  target_exceeded; otherwise nothing is appended. With thresholds green 80, amber 60,
  red 40 and target 100: an actual of 30 appends one critical threshold_breach, an actual
  of 50 one high threshold_breach, an actual of 115 one low target_exceeded, and actuals
  of 70 and 90 append nothing (70 is not below the amber cut-off of 60).
\<close>

theorem checkThresholds_first_match:
  "(\<exists>d'. checkThresholds newId now d kpiId av = Inr d' \<and>
         (d' = d \<or> (\<exists>a. d' = d\<lparr>alerts := alerts d @ [a]\<rparr>))) \<and>
   (getKPI d kpiId = Inr (Some k) \<and>
    getTargets d kpiId (getFullYear now) (Some (currentQuarter now)) = Inr (t # ts) \<and>
    CreateAlert \<notin> down d \<and> length (kpi_name k) \<le> 224 \<and>
    tv = rnd (targetValue t) \<and>
    lo = rnd (rnd (rnd (red (target_threshold t)) * tv) / 100) \<and>
    mid = rnd (rnd (rnd (amber (target_threshold t)) * tv) / 100) \<and>
    hi = rnd (tv * rnd 1.1) \<longrightarrow>
      (rnd av < lo \<longrightarrow>
         (\<exists>a. checkThresholds newId now d kpiId av = Inr (d\<lparr>alerts := alerts d @ [a]\<rparr>) \<and>
              alert_type a = ''threshold_breach'' \<and> alert_severity a = critical \<and>
              \<not> isRead a \<and> \<not> isResolved a)) \<and>
      (\<not> rnd av < lo \<and> rnd av < mid \<longrightarrow>
         (\<exists>a. checkThresholds newId now d kpiId av = Inr (d\<lparr>alerts := alerts d @ [a]\<rparr>) \<and>
              alert_type a = ''threshold_breach'' \<and> alert_severity a = high \<and>
              \<not> isRead a \<and> \<not> isResolved a)) \<and>
      (\<not> rnd av < lo \<and> \<not> rnd av < mid \<and> hi < rnd av \<longrightarrow>
         (\<exists>a. checkThresholds newId now d kpiId av = Inr (d\<lparr>alerts := alerts d @ [a]\<rparr>) \<and>
              alert_type a = ''target_exceeded'' \<and> alert_severity a = low \<and>
              \<not> isRead a \<and> \<not> isResolved a)) \<and>
      (\<not> rnd av < lo \<and> \<not> rnd av < mid \<and> \<not> hi < rnd av \<longrightarrow>
         checkThresholds newId now d kpiId av = Inr d)) \<and>
   (getKPI d kpiId = Inr (Some k) \<and>
    getTargets d kpiId (getFullYear now) (Some (currentQuarter now)) = Inr (t # ts) \<and>
    target_threshold t = \<lparr>green = 80, amber = 60, red = 40\<rparr> \<and> targetValue t = 100 \<and>
    CreateAlert \<notin> down d \<and> length (kpi_name k) \<le> 224 \<longrightarrow>
      (\<exists>a. checkThresholds newId now d kpiId 30 = Inr (d\<lparr>alerts := alerts d @ [a]\<rparr>) \<and>
           alert_type a = ''threshold_breach'' \<and> alert_severity a = critical \<and>
           \<not> isRead a \<and> \<not> isResolved a) \<and>
      (\<exists>a. checkThresholds newId now d kpiId 50 = Inr (d\<lparr>alerts := alerts d @ [a]\<rparr>) \<and>
           alert_type a = ''threshold_breach'' \<and> alert_severity a = high \<and>
           \<not> isRead a \<and> \<not> isResolved a) \<and>
      checkThresholds newId now d kpiId 70 = Inr d \<and>
      (\<exists>a. checkThresholds newId now d kpiId 115 = Inr (d\<lparr>alerts := alerts d @ [a]\<rparr>) \<and>
           alert_type a = ''target_exceeded'' \<and> alert_severity a = low \<and>
           \<not> isRead a \<and> \<not> isResolved a) \<and>
      checkThresholds newId now d kpiId 90 = Inr d)"
proof (intro conjI)
  show "\<exists>d'. checkThresholds newId now d kpiId av = Inr d' \<and>
         (d' = d \<or> (\<exists>a. d' = d\<lparr>alerts := alerts d @ [a]\<rparr>))"
    by (rule checkThresholds_at_most_one)
next
  show "getKPI d kpiId = Inr (Some k) \<and>
    getTargets d kpiId (getFullYear now) (Some (currentQuarter now)) = Inr (t # ts) \<and>
    CreateAlert \<notin> down d \<and> length (kpi_name k) \<le> 224 \<and>
    tv = rnd (targetValue t) \<and>
    lo = rnd (rnd (rnd (red (target_threshold t)) * tv) / 100) \<and>
    mid = rnd (rnd (rnd (amber (target_threshold t)) * tv) / 100) \<and>
    hi = rnd (tv * rnd 1.1) \<longrightarrow>
      (rnd av < lo \<longrightarrow>
         (\<exists>a. checkThresholds newId now d kpiId av = Inr (d\<lparr>alerts := alerts d @ [a]\<rparr>) \<and>
              alert_type a = ''threshold_breach'' \<and> alert_severity a = critical \<and>
              \<not> isRead a \<and> \<not> isResolved a)) \<and>
      (\<not> rnd av < lo \<and> rnd av < mid \<longrightarrow>
         (\<exists>a. checkThresholds newId now d kpiId av = Inr (d\<lparr>alerts := alerts d @ [a]\<rparr>) \<and>
              alert_type a = ''threshold_breach'' \<and> alert_severity a = high \<and>
              \<not> isRead a \<and> \<not> isResolved a)) \<and>
      (\<not> rnd av < lo \<and> \<not> rnd av < mid \<and> hi < rnd av \<longrightarrow>
         (\<exists>a. checkThresholds newId now d kpiId av = Inr (d\<lparr>alerts := alerts d @ [a]\<rparr>) \<and>
              alert_type a = ''target_exceeded'' \<and> alert_severity a = low \<and>
              \<not> isRead a \<and> \<not> isResolved a)) \<and>
      (\<not> rnd av < lo \<and> \<not> rnd av < mid \<and> \<not> hi < rnd av \<longrightarrow>
         checkThresholds newId now d kpiId av = Inr d)"
  proof (intro impI)
    assume h: "getKPI d kpiId = Inr (Some k) \<and>
      getTargets d kpiId (getFullYear now) (Some (currentQuarter now)) = Inr (t # ts) \<and>
      CreateAlert \<notin> down d \<and> length (kpi_name k) \<le> 224 \<and>
      tv = rnd (targetValue t) \<and>
      lo = rnd (rnd (rnd (red (target_threshold t)) * tv) / 100) \<and>
      mid = rnd (rnd (rnd (amber (target_threshold t)) * tv) / 100) \<and>
      hi = rnd (tv * rnd 1.1)"
    note o = checkThresholds_order [of d kpiId k now t ts tv lo mid hi av newId]
    show "(rnd av < lo \<longrightarrow>
         (\<exists>a. checkThresholds newId now d kpiId av = Inr (d\<lparr>alerts := alerts d @ [a]\<rparr>) \<and>
              alert_type a = ''threshold_breach'' \<and> alert_severity a = critical \<and>
              \<not> isRead a \<and> \<not> isResolved a)) \<and>
      (\<not> rnd av < lo \<and> rnd av < mid \<longrightarrow>
         (\<exists>a. checkThresholds newId now d kpiId av = Inr (d\<lparr>alerts := alerts d @ [a]\<rparr>) \<and>
              alert_type a = ''threshold_breach'' \<and> alert_severity a = high \<and>
              \<not> isRead a \<and> \<not> isResolved a)) \<and>
      (\<not> rnd av < lo \<and> \<not> rnd av < mid \<and> hi < rnd av \<longrightarrow>
         (\<exists>a. checkThresholds newId now d kpiId av = Inr (d\<lparr>alerts := alerts d @ [a]\<rparr>) \<and>
              alert_type a = ''target_exceeded'' \<and> alert_severity a = low \<and>
              \<not> isRead a \<and> \<not> isResolved a)) \<and>
      (\<not> rnd av < lo \<and> \<not> rnd av < mid \<and> \<not> hi < rnd av \<longrightarrow>
         checkThresholds newId now d kpiId av = Inr d)"
      using h o by blast
  qed
next
  show "getKPI d kpiId = Inr (Some k) \<and>
    getTargets d kpiId (getFullYear now) (Some (currentQuarter now)) = Inr (t # ts) \<and>
    target_threshold t = \<lparr>green = 80, amber = 60, red = 40\<rparr> \<and> targetValue t = 100 \<and>
    CreateAlert \<notin> down d \<and> length (kpi_name k) \<le> 224 \<longrightarrow>
      (\<exists>a. checkThresholds newId now d kpiId 30 = Inr (d\<lparr>alerts := alerts d @ [a]\<rparr>) \<and>
           alert_type a = ''threshold_breach'' \<and> alert_severity a = critical \<and>
           \<not> isRead a \<and> \<not> isResolved a) \<and>
      (\<exists>a. checkThresholds newId now d kpiId 50 = Inr (d\<lparr>alerts := alerts d @ [a]\<rparr>) \<and>
           alert_type a = ''threshold_breach'' \<and> alert_severity a = high \<and>
           \<not> isRead a \<and> \<not> isResolved a) \<and>
      checkThresholds newId now d kpiId 70 = Inr d \<and>
      (\<exists>a. checkThresholds newId now d kpiId 115 = Inr (d\<lparr>alerts := alerts d @ [a]\<rparr>) \<and>
           alert_type a = ''target_exceeded'' \<and> alert_severity a = low \<and>
           \<not> isRead a \<and> \<not> isResolved a) \<and>
      checkThresholds newId now d kpiId 90 = Inr d"
  proof (intro impI conjI)
    assume h: "getKPI d kpiId = Inr (Some k) \<and>
      getTargets d kpiId (getFullYear now) (Some (currentQuarter now)) = Inr (t # ts) \<and>
      target_threshold t = \<lparr>green = 80, amber = 60, red = 40\<rparr> \<and> targetValue t = 100 \<and>
      CreateAlert \<notin> down d \<and> length (kpi_name k) \<le> 224"
    have k: "getKPI d kpiId = Inr (Some k)"
      and g: "getTargets d kpiId (getFullYear now) (Some (currentQuarter now)) = Inr (t # ts)"
      and c: "CreateAlert \<notin> down d" and n: "length (kpi_name k) \<le> 224"
      using h by simp_all
    have th: "target_threshold t = \<lparr>green = 80, amber = 60, red = 40\<rparr>" "targetValue t = 100"
      using h by simp_all
    note o = checkThresholds_order [OF k g c n refl refl refl refl, where newId = newId]
    show "\<exists>a. checkThresholds newId now d kpiId 30 = Inr (d\<lparr>alerts := alerts d @ [a]\<rparr>) \<and>
           alert_type a = ''threshold_breach'' \<and> alert_severity a = critical \<and>
           \<not> isRead a \<and> \<not> isResolved a"
      by (rule o(1)) (simp add: th cutoffs_100)
    show "\<exists>a. checkThresholds newId now d kpiId 50 = Inr (d\<lparr>alerts := alerts d @ [a]\<rparr>) \<and>
           alert_type a = ''threshold_breach'' \<and> alert_severity a = high \<and>
           \<not> isRead a \<and> \<not> isResolved a"
      by (rule o(2)) (simp_all add: th cutoffs_100)
    show "checkThresholds newId now d kpiId 70 = Inr d"
      by (rule o(4)) (simp_all add: th cutoffs_100)
    show "\<exists>a. checkThresholds newId now d kpiId 115 = Inr (d\<lparr>alerts := alerts d @ [a]\<rparr>) \<and>
           alert_type a = ''target_exceeded'' \<and> alert_severity a = low \<and>
           \<not> isRead a \<and> \<not> isResolved a"
      by (rule o(3)) (simp_all add: th cutoffs_100)
    show "checkThresholds newId now d kpiId 90 = Inr d"
      by (rule o(4)) (simp_all add: th cutoffs_100)
  qed
qed

theorem checkThresholds_first_match_witness:
  "rnd (targetValue target0) = 100 \<and>
   rnd (rnd (rnd (red (target_threshold target0)) * 100) / 100) = 40 \<and>
   rnd (rnd (rnd (amber (target_threshold target0)) * 100) / 100) = 60 \<and>
   rnd (100 * rnd 1.1) = 7740561859543041 / 2 ^ 46 \<and>
   length ''Uptime'' \<le> 224 \<and>
   (\<exists>a. checkThresholds ''a1'' now0 db0 ''k1'' 30 = Inr (db0\<lparr>alerts := alerts db0 @ [a]\<rparr>) \<and>
        alert_type a = ''threshold_breach'' \<and> alert_severity a = critical \<and>
        \<not> isRead a \<and> \<not> isResolved a) \<and>
   (\<exists>a. checkThresholds ''a1'' now0 db0 ''k1'' 50 = Inr (db0\<lparr>alerts := alerts db0 @ [a]\<rparr>) \<and>
        alert_type a = ''threshold_breach'' \<and> alert_severity a = high \<and>
        \<not> isRead a \<and> \<not> isResolved a) \<and>
   checkThresholds ''a1'' now0 db0 ''k1'' 70 = Inr db0 \<and>
   (\<exists>a. checkThresholds ''a1'' now0 db0 ''k1'' 115 = Inr (db0\<lparr>alerts := alerts db0 @ [a]\<rparr>) \<and>
        alert_type a = ''target_exceeded'' \<and> alert_severity a = low \<and>
        \<not> isRead a \<and> \<not> isResolved a) \<and>
   checkThresholds ''a1'' now0 db0 ''k1'' 90 = Inr db0"
proof -
  let ?k = "\<lparr> kpi_id = ''k1'', kpi_name = ''Uptime'', kpi_pillarId = ''p1'',
              kpi_departmentId = ''d1'', kpi_isActive = True, kd_pillar = pillar0,
              kd_department = dept0, kd_status = Amber, kd_progress = 75 \<rparr>"
  have c: "rnd (targetValue target0) = 100"
    "rnd (rnd (rnd (red (target_threshold target0)) * 100) / 100) = 40"
    "rnd (rnd (rnd (amber (target_threshold target0)) * 100) / 100) = 60"
    "rnd (100 * rnd 1.1) = 7740561859543041 / 2 ^ 46"
    by (simp_all add: target0_def cutoffs_100)
  have h: "getKPI db0 ''k1'' = Inr (Some ?k) \<and>
      getTargets db0 ''k1'' (getFullYear now0) (Some (currentQuarter now0)) = Inr (target0 # []) \<and>
      CreateAlert \<notin> down db0 \<and> length (kpi_name ?k) \<le> 224 \<and>
      100 = rnd (targetValue target0) \<and>
      40 = rnd (rnd (rnd (red (target_threshold target0)) * 100) / 100) \<and>
      60 = rnd (rnd (rnd (amber (target_threshold target0)) * 100) / 100) \<and>
      7740561859543041 / 2 ^ 46 = rnd (100 * rnd 1.1)"
    by (simp add: getKPI_db0 getTargets_db0 c) (simp add: db0_def)
  have e: "target_threshold target0 = \<lparr>green = 80, amber = 60, red = 40\<rparr> \<and>
           targetValue target0 = 100"
    by (simp add: target0_def)
  note g30 = checkThresholds_first_match [where newId = "''a1''" and now = now0 and d = db0
      and kpiId = "''k1''" and av = 30 and k = ?k and t = target0 and ts = "[]" and tv = 100
      and lo = 40 and mid = 60 and hi = "7740561859543041 / 2 ^ 46"]
  note g90 = checkThresholds_first_match [where newId = "''a1''" and now = now0 and d = db0
      and kpiId = "''k1''" and av = 90 and k = ?k and t = target0 and ts = "[]" and tv = 100
      and lo = 40 and mid = 60 and hi = "7740561859543041 / 2 ^ 46"]
  have r30: "\<exists>a. checkThresholds ''a1'' now0 db0 ''k1'' 30 = Inr (db0\<lparr>alerts := alerts db0 @ [a]\<rparr>) \<and>
        alert_type a = ''threshold_breach'' \<and> alert_severity a = critical \<and>
        \<not> isRead a \<and> \<not> isResolved a"
  proof -
    have "rnd 30 < (40 :: real)" by simp
    then show ?thesis using g30 h by blast
  qed
  have r90: "checkThresholds ''a1'' now0 db0 ''k1'' 90 = Inr db0"
  proof -
    have "\<not> rnd 90 < (40 :: real)" "\<not> rnd 90 < (60 :: real)"
      "\<not> 7740561859543041 / 2 ^ 46 < rnd (90 :: real)"
      by simp_all
    then show ?thesis using g90 h by blast
  qed
  have rest: "(\<exists>a. checkThresholds ''a1'' now0 db0 ''k1'' 50 = Inr (db0\<lparr>alerts := alerts db0 @ [a]\<rparr>) \<and>
        alert_type a = ''threshold_breach'' \<and> alert_severity a = high \<and>
        \<not> isRead a \<and> \<not> isResolved a) \<and>
   checkThresholds ''a1'' now0 db0 ''k1'' 70 = Inr db0 \<and>
   (\<exists>a. checkThresholds ''a1'' now0 db0 ''k1'' 115 = Inr (db0\<lparr>alerts := alerts db0 @ [a]\<rparr>) \<and>
        alert_type a = ''target_exceeded'' \<and> alert_severity a = low \<and>
        \<not> isRead a \<and> \<not> isResolved a)"
    using g30 h e by blast
  show ?thesis
    using c r30 r90 rest by simp
qed

text \<open>The claim as written fails at the actual 70: no alert is appended.\<close>

theorem checkThresholds_actual_70_counterexample:
  "checkThresholds ''a1'' now0 db0 ''k1'' 70 = Inr db0 \<and> alerts db0 = []"
proof
  have "determineAlert ''Uptime'' (jsonThreshold (target_threshold target0))
          (parseFloat (targetValue target0)) (numberOf 70) = ('''', low, '''')"
    by (simp add: jsonThreshold_target0 target0_def parseFloat_100 determineAlert_examples)
  then show "checkThresholds ''a1'' now0 db0 ''k1'' 70 = Inr db0"
    using checkThresholds_silent [OF getKPI_db0 getTargets_db0, of 70 low "''a1''"]
    by (simp add: db0_def)
  show "alerts db0 = []" by (simp add: db0_def)
qed

text \<open>
  Claim C8, as the code has it. checkThresholds never rejects: an exception raised inside
  its \<open>try\<close> block is caught there. In particular, while the alert store is unavailable
  every evaluation resolves and leaves the database as it was, so the submission that
  triggered it never sees the failure.
\<close>

theorem checkThresholds_swallows_failure:
  "(\<exists>d'. checkThresholds newId now d kpiId av = Inr d') \<and>
   (CreateAlert \<in> down d \<longrightarrow> checkThresholds newId now d kpiId av = Inr d)"
proof
  show "\<exists>d'. checkThresholds newId now d kpiId av = Inr d'"
    by (simp add: checkThresholds_def split: sum.splits)
  show "CreateAlert \<in> down d \<longrightarrow> checkThresholds newId now d kpiId av = Inr d"
    by (auto simp: checkThresholds_def checkThresholds_try_def createAlert_def Let_def
             split: sum.splits option.splits prod.splits if_splits)
qed

theorem checkThresholds_swallows_failure_witness:
  "CreateAlert \<in> down db0_down \<and> checkThresholds ''a1'' now0 db0_down ''k1'' 30 = Inr db0_down"
proof -
  have "CreateAlert \<in> down db0_down"
    by (simp add: db0_down_def)
  then show ?thesis
    using checkThresholds_swallows_failure [of "''a1''" now0 db0_down "''k1''" 30] by simp
qed

text \<open>The claim as written fails: with the alert store down, an actual of 30 makes the
  insertion throw inside the \<open>try\<close> block, and checkThresholds still resolves.\<close>

lemma getKPI_db0_down: "getKPI db0_down ''k1'' = getKPI db0 ''k1''"
  by (simp add: getKPI_def db0_down_def db0_def)

lemma getTargets_db0_down: "getTargets db0_down ''k1'' y q = getTargets db0 ''k1'' y q"
  by (simp add: getTargets_def db0_down_def db0_def)

theorem checkThresholds_propagation_counterexample:
  "checkThresholds_try ''a1'' now0 db0_down ''k1'' 30 = Inl (DbError CreateAlert) \<and>
   checkThresholds ''a1'' now0 db0_down ''k1'' 30 = Inr db0_down"
proof -
  have d: "determineAlert ''Uptime'' (jsonThreshold (target_threshold target0))
             (parseFloat (targetValue target0)) 30 =
          (''threshold_breach'', critical, ''Critical: '' @ ''Uptime'' @ '' Below Red Threshold'')"
    by (simp add: jsonThreshold_target0 target0_def parseFloat_100 determineAlert_examples)
  have c: "createAlert i t ins db0_down = Inl (DbError CreateAlert)" for i t ins
    by (simp add: createAlert_def db0_down_def)
  have t: "checkThresholds_try ''a1'' now0 db0_down ''k1'' 30 = Inl (DbError CreateAlert)"
    by (simp add: checkThresholds_try_def getKPI_db0_down getKPI_db0 getTargets_db0_down
          getTargets_db0 d c Let_def del: append.simps)
  then show ?thesis
    by (simp add: checkThresholds_def)
qed

text \<open>
  Claim C9. The band chosen by checkThresholds is monotonic in the actual value: a larger
  actual never falls in a lower band (critical breach, high breach, no alert, target
  exceeded, in that order). It holds for every target value and threshold triple, so in
  particular for a positive target with green, amber and red in descending order. The
  status that the KPI lookup returns is the constant amber, whatever the actuals.
\<close>

theorem threshold_evaluation_monotone:
  "(a \<le> a' \<longrightarrow>
      bandRank (determineAlert n th tv a) \<le> bandRank (determineAlert n th tv a')) \<and>
   (getKPI d i = Inr (Some k) \<longrightarrow> kd_status k = Amber)"
proof
  show "a \<le> a' \<longrightarrow> bandRank (determineAlert n th tv a) \<le> bandRank (determineAlert n th tv a')"
    by (auto simp: bandRank_def determineAlert_def)
  show "getKPI d i = Inr (Some k) \<longrightarrow> kd_status k = Amber"
    by (auto simp: getKPI_def split: if_splits list.splits)
qed

theorem threshold_evaluation_monotone_witness:
  "(50 :: real) \<le> 70 \<and>
   bandRank (determineAlert ''Uptime'' \<lparr>green = 80, amber = 60, red = 40\<rparr> 100 50) = 1 \<and>
   bandRank (determineAlert ''Uptime'' \<lparr>green = 80, amber = 60, red = 40\<rparr> 100 70) = 2 \<and>
   bandRank (determineAlert ''Uptime'' \<lparr>green = 80, amber = 60, red = 40\<rparr> 100 50)
     \<le> bandRank (determineAlert ''Uptime'' \<lparr>green = 80, amber = 60, red = 40\<rparr> 100 70) \<and>
   getKPI db0 ''k1'' =
     Inr (Some \<lparr> kpi_id = ''k1'', kpi_name = ''Uptime'', kpi_pillarId = ''p1'',
                 kpi_departmentId = ''d1'', kpi_isActive = True, kd_pillar = pillar0,
                 kd_department = dept0, kd_status = Amber, kd_progress = 75 \<rparr>) \<and>
   kd_status \<lparr> kpi_id = ''k1'', kpi_name = ''Uptime'', kpi_pillarId = ''p1'',
               kpi_departmentId = ''d1'', kpi_isActive = True, kd_pillar = pillar0,
               kd_department = dept0, kd_status = Amber, kd_progress = 75 \<rparr> = Amber"
proof -
  note m = threshold_evaluation_monotone
             [of 50 70 "''Uptime''" "\<lparr>green = 80, amber = 60, red = 40\<rparr>" 100 db0 "''k1''"
                 "\<lparr> kpi_id = ''k1'', kpi_name = ''Uptime'', kpi_pillarId = ''p1'',
                    kpi_departmentId = ''d1'', kpi_isActive = True, kd_pillar = pillar0,
                    kd_department = dept0, kd_status = Amber, kd_progress = 75 \<rparr>"]
  have le: "(50 :: real) \<le> 70"
    by simp
  have mono: "bandRank (determineAlert ''Uptime'' \<lparr>green = 80, amber = 60, red = 40\<rparr> 100 50)
     \<le> bandRank (determineAlert ''Uptime'' \<lparr>green = 80, amber = 60, red = 40\<rparr> 100 70)"
    using m le by blast
  have st: "kd_status \<lparr> kpi_id = ''k1'', kpi_name = ''Uptime'', kpi_pillarId = ''p1'',
               kpi_departmentId = ''d1'', kpi_isActive = True, kd_pillar = pillar0,
               kd_department = dept0, kd_status = Amber, kd_progress = 75 \<rparr> = Amber"
    using m getKPI_db0 by blast
  have r: "bandRank (determineAlert ''Uptime'' \<lparr>green = 80, amber = 60, red = 40\<rparr> 100 50) = 1"
    "bandRank (determineAlert ''Uptime'' \<lparr>green = 80, amber = 60, red = 40\<rparr> 100 70) = 2"
    by (simp_all add: determineAlert_examples bandRank_def)
  show ?thesis
    using le mono st r getKPI_db0 by blast
qed

section \<open>Anomaly detection\<close>

lemma slice_last:
  "slice (ys @ [a, b, r]) (- 1) None = [r]"
  by (simp add: slice_def Let_def nat_add_distrib)

lemma slice_previous:
  "slice (ys @ [a, b, r]) (- 3) (Some (- 1)) = [a, b]"
  by (simp add: slice_def Let_def nat_add_distrib)

text \<open>Over the reals, the population standard deviation of two points is half their
  distance.\<close>

lemma stdDev_two:
  "sqrt (((a - (a + b) / 2)\<^sup>2 + (b - (a + b) / 2)\<^sup>2) / 2) = \<bar>a - b\<bar> / (2 :: real)"
proof -
  have "((a - (a + b) / 2)\<^sup>2 + (b - (a + b) / 2)\<^sup>2) / 2 = (\<bar>a - b\<bar> / 2)\<^sup>2"
    by (simp add: power2_eq_square field_simps)
  then show ?thesis
    by (simp only: real_sqrt_abs) simp
qed

text \<open>On integer points of magnitude up to \<open>2 ^ 25\<close> no operation of the source rounds.\<close>

lemma rnd_eqI:
  assumes "x = of_int m / 2 ^ j" and "\<bar>m\<bar> < 2 ^ 53" and "j \<le> 1074"
  shows "rnd x = x"
  by (simp only: assms(1) rnd_scaled [OF assms(2,3)])

lemma meanOfTwo_int:
  assumes "\<bar>a\<bar> \<le> 2 ^ 25" and "\<bar>b\<bar> \<le> 2 ^ 25"
  shows "meanOfTwo (of_int a) (of_int b) = (of_int a + of_int b) / 2"
proof -
  have 1: "rnd (0 + real_of_int a) = 0 + real_of_int a"
    by (rule rnd_eqI [where m = a and j = 0]) (use assms in simp_all)
  have 2: "rnd (0 + real_of_int a + of_int b) = 0 + real_of_int a + of_int b"
    by (rule rnd_eqI [where m = "a + b" and j = 0]) (use assms in simp_all)
  have 3: "rnd ((0 + real_of_int a + of_int b) / 2) = (0 + real_of_int a + of_int b) / 2"
    by (rule rnd_eqI [where m = "a + b" and j = 1]) (use assms in simp_all)
  have "meanOfTwo (of_int a) (of_int b) = (0 + real_of_int a + of_int b) / 2"
    by (simp only: meanOfTwo_def fadd_def fdiv_def 1 2 3)
  then show ?thesis by simp
qed

lemma square_bound:
  assumes "\<bar>c\<bar> \<le> (2 :: int) ^ 26"
  shows "\<bar>c\<^sup>2\<bar> < 2 ^ 53"
proof -
  have "\<bar>c\<bar>\<^sup>2 \<le> (2 ^ 26)\<^sup>2"
    using assms by (intro power_mono) simp_all
  then show ?thesis by simp
qed

lemma stdDevOfTwo_int:
  assumes "\<bar>a\<bar> \<le> 2 ^ 25" and "\<bar>b\<bar> \<le> 2 ^ 25"
  shows "stdDevOfTwo (of_int a) (of_int b) = \<bar>of_int a - of_int b\<bar> / 2"
proof -
  define c where "c = a - b"
  define h :: real where "h = of_int c / 2"
  define q :: real where "q = of_int (c\<^sup>2) / 4"
  have cb: "\<bar>c\<bar> \<le> 2 ^ 26" using assms by (simp add: c_def)
  have c53: "\<bar>c\<bar> < 2 ^ 53" "\<bar>- c\<bar> < 2 ^ 53" "\<bar>\<bar>c\<bar>\<bar> < 2 ^ 53" using cb by simp_all
  note sq = square_bound [OF cb]
  have m: "meanOfTwo (of_int a) (of_int b) = (of_int a + of_int b) / 2"
    by (rule meanOfTwo_int [OF assms])
  have e1: "real_of_int a - (of_int a + of_int b) / 2 = h"
    and e2: "real_of_int b - (of_int a + of_int b) / 2 = - h"
    by (simp_all add: h_def c_def field_simps)
  have r1: "rnd h = h"
    by (rule rnd_eqI [where m = c and j = 1]) (use c53 in \<open>simp_all add: h_def\<close>)
  have r2: "rnd (- h) = - h"
    by (rule rnd_eqI [where m = "- c" and j = 1]) (use c53 in \<open>simp_all add: h_def\<close>)
  have hq: "h ^ 2 = q" "(- h) ^ 2 = q"
    by (simp_all add: h_def q_def power_divide)
  have rq: "rnd q = q"
    by (rule rnd_eqI [where m = "c\<^sup>2" and j = 2]) (use sq in \<open>simp_all add: q_def\<close>)
  have r0: "rnd (0 + q) = q"
    using rq by simp
  have rs: "rnd (q + q) = q + q"
    by (rule rnd_eqI [where m = "c\<^sup>2" and j = 1]) (use sq in \<open>simp_all add: q_def\<close>)
  have rv: "rnd ((q + q) / 2) = q"
    using rq by simp
  have sqr: "sqrt q = \<bar>h\<bar>"
  proof -
    have "q = h\<^sup>2" using hq(1) by simp
    then show ?thesis by (simp only: real_sqrt_abs)
  qed
  have ra: "rnd \<bar>h\<bar> = \<bar>h\<bar>"
    by (rule rnd_eqI [where m = "\<bar>c\<bar>" and j = 1]) (use c53 in \<open>simp_all add: h_def\<close>)
  have "stdDevOfTwo (of_int a) (of_int b) = \<bar>h\<bar>"
    by (simp only: stdDevOfTwo_def m fsub_def fadd_def fdiv_def Math_pow_def Math_sqrt_def
          e1 e2 r1 r2 hq rq r0 rs rv sqr ra)
  then show ?thesis by (simp add: h_def c_def)
qed

text \<open>On such points the criterion of the source is the criterion over the reals.\<close>

lemma anomaly_int:
  assumes "\<bar>a\<bar> \<le> 2 ^ 25" and "\<bar>b\<bar> \<le> 2 ^ 25" and "\<bar>r\<bar> \<le> 2 ^ 25"
  shows "(\<bar>fsub (of_int r) (meanOfTwo (of_int a) (of_int b))\<bar>
            > fmul 2 (stdDevOfTwo (of_int a) (of_int b))) =
         (\<bar>real_of_int r - (of_int a + of_int b) / 2\<bar> >
            2 * sqrt (((real_of_int a - (of_int a + of_int b) / 2)\<^sup>2 +
                       (real_of_int b - (of_int a + of_int b) / 2)\<^sup>2) / 2))"
proof -
  have 1: "rnd (real_of_int r - (of_int a + of_int b) / 2) =
             real_of_int r - (of_int a + of_int b) / 2"
    by (rule rnd_eqI [where m = "2 * r - a - b" and j = 1])
       (use assms in \<open>simp_all add: field_simps\<close>)
  have 2: "rnd (2 * (\<bar>real_of_int a - of_int b\<bar> / 2)) = 2 * (\<bar>real_of_int a - of_int b\<bar> / 2)"
    by (rule rnd_eqI [where m = "\<bar>a - b\<bar>" and j = 0]) (use assms in simp_all)
  show ?thesis
    by (simp only: fsub_def fmul_def meanOfTwo_int [OF assms(1,2)]
          stdDevOfTwo_int [OF assms(1,2)] 1 2 stdDev_two)
qed

lemma anomalous_50_52_90:
  "\<bar>fsub 90 (meanOfTwo 50 52)\<bar> > fmul 2 (stdDevOfTwo 50 52)"
proof -
  have "\<bar>(90 :: real) - (50 + 52) / 2\<bar> > 2 * (\<bar>50 - 52\<bar> / 2)"
    by simp
  then show ?thesis
    using anomaly_int [of 50 52 90] by (simp add: stdDev_two)
qed

lemma anomalous_50_51_52:
  "\<bar>fsub 52 (meanOfTwo 50 51)\<bar> > fmul 2 (stdDevOfTwo 50 51)"
proof -
  have "\<bar>(52 :: real) - (50 + 51) / 2\<bar> > 2 * (\<bar>50 - 51\<bar> / 2)"
    by simp
  then show ?thesis
    using anomaly_int [of 50 51 52] by (simp add: stdDev_two)
qed

lemma historyPeriods_now0:
  "historyPeriods now0 = [(2024, 1), (2024, 2), (2024, 3), (2024, 4), (2025, 1), (2025, 2)]"
  by (simp add: historyPeriods_def now0_def Math_ceil_def)

lemma gatherHistory_seriesDb2:
  "gatherHistory (seriesDb [x, y]) ''k1'' (historyPeriods now0) =
     Inr [parseFloat x, parseFloat y]"
  by (simp add: historyPeriods_now0 getActuals_def seriesDb_def periodTargets_def mkTarget_def
        target0_def db0_def)

lemma gatherHistory_seriesDb3:
  "gatherHistory (seriesDb [x, y, z]) ''k1'' (historyPeriods now0) =
     Inr [parseFloat x, parseFloat y, parseFloat z]"
  by (simp add: historyPeriods_now0 getActuals_def seriesDb_def periodTargets_def mkTarget_def
        target0_def db0_def)

lemma gatherHistory_seriesDb4:
  "gatherHistory (seriesDb [w, x, y, z]) ''k1'' (historyPeriods now0) =
     Inr [parseFloat w, parseFloat x, parseFloat y, parseFloat z]"
  by (simp add: historyPeriods_now0 getActuals_def seriesDb_def periodTargets_def mkTarget_def
        target0_def db0_def)

lemma parseFloat_numeral [simp]:
  assumes "(numeral n :: int) < 2 ^ 53"
  shows "parseFloat (numeral n) = numeral n"
  using assms by (simp add: parseFloat_def)

lemma gatherHistory_departments:
  "gatherHistory (d\<lparr>departments := ds\<rparr>) k ps = gatherHistory d k ps"
  by (induction ps) (auto simp: getActuals_def)

lemma getKPI_seriesDb:
  "getKPI (seriesDb vs) ''k1'' = getKPI db0 ''k1''"
  by (simp add: getKPI_def seriesDb_def db0_def)

lemma down_seriesDb: "down (seriesDb vs) = {}"
  by (simp add: seriesDb_def db0_def)

lemma alerts_seriesDb: "alerts (seriesDb vs) = []"
  by (simp add: seriesDb_def db0_def)

text \<open>detectAnomalies on a series that ends in \<open>a, b, r\<close>.\<close>

lemma detectAnomalies_try_series:
  assumes "gatherHistory d kpiId (historyPeriods now) = Inr (ys @ [a, b, r])"
    and "flag = (\<bar>fsub r (meanOfTwo a b)\<bar> > fmul 2 (stdDevOfTwo a b))"
  shows "detectAnomalies_try newId now d kpiId =
           (if flag then
              (case getKPI d kpiId of
                 Inl e \<Rightarrow> Inl e
               | Inr None \<Rightarrow> Inr (True, d)
               | Inr (Some k) \<Rightarrow>
                   (case createAlert newId now
                           \<lparr> ins_type = ''anomaly_detected'', ins_severity = medium,
                             ins_title = ''Anomaly Detected: '' @ kpi_name k,
                             ins_kpiId = Some kpiId,
                             ins_departmentId = Some (kpi_departmentId k),
                             ins_triggeredBy = None, ins_isRead = Some False,
                             ins_isResolved = Some False, ins_resolvedBy = None,
                             ins_resolvedAt = None \<rparr> d of
                      Inl e \<Rightarrow> Inl e
                    | Inr (_, d') \<Rightarrow> Inr (True, d')))
            else Inr (False, d))"
  by (simp add: detectAnomalies_try_def assms slice_last slice_previous Let_def
        meanOfTwo_def stdDevOfTwo_def
           del: append.simps split: sum.splits option.splits)

lemma detectAnomalies_flag:
  assumes "gatherHistory d kpiId (historyPeriods now) = Inr (ys @ [a, b, r])"
    and "getKPI d kpiId = Inr ko"
    and "case ko of None \<Rightarrow> True | Some k \<Rightarrow> length (kpi_name k) \<le> 237"
    and "CreateAlert \<notin> down d"
  shows "\<exists>d'. detectAnomalies newId now d kpiId =
           Inr (\<bar>fsub r (meanOfTwo a b)\<bar> > fmul 2 (stdDevOfTwo a b), d')"
  using assms(2-4)
  by (auto simp: detectAnomalies_def detectAnomalies_try_series [OF assms(1) refl]
                 createAlert_def Let_def
           split: sum.splits option.splits prod.splits)

lemma detectAnomalies_found:
  assumes "gatherHistory d kpiId (historyPeriods now) = Inr (ys @ [a, b, r])"
    and "\<bar>fsub r (meanOfTwo a b)\<bar> > fmul 2 (stdDevOfTwo a b)"
    and "getKPI d kpiId = Inr (Some k)"
    and "CreateAlert \<notin> down d"
    and "length (kpi_name k) \<le> 237"
  shows "detectAnomalies newId now d kpiId =
           Inr (True, d\<lparr>alerts := alerts d @
                  [\<lparr> alert_id = newId, alert_type = ''anomaly_detected'',
                     alert_severity = medium,
                     alert_title = ''Anomaly Detected: '' @ kpi_name k,
                     alert_kpiId = Some kpiId,
                     alert_departmentId = Some (kpi_departmentId k),
                     alert_triggeredBy = None, isRead = False, isResolved = False,
                     resolvedBy = None, resolvedAt = None, alert_createdAt = now \<rparr>]\<rparr>)"
  using assms(2-5)
  by (simp add: detectAnomalies_def detectAnomalies_try_series [OF assms(1) refl]
        createAlert_def Let_def del: append.simps)

lemma detectAnomalies_no_kpi:
  assumes "gatherHistory d kpiId (historyPeriods now) = Inr (ys @ [a, b, r])"
    and "\<bar>fsub r (meanOfTwo a b)\<bar> > fmul 2 (stdDevOfTwo a b)"
    and "getKPI d kpiId = Inr None"
  shows "detectAnomalies newId now d kpiId = Inr (True, d)"
  using assms(2-3)
  by (simp add: detectAnomalies_def detectAnomalies_try_series [OF assms(1) refl])

text \<open>
  Claim C4, as the code has it. detectAnomalies never raises. A series of fewer than 3
  points is reported as not anomalous. With at least 3 points, the KPI lookup and the
  alert store available and a KPI name of at most 237 characters, so that the alert title
  fits its column, the flag is exactly: the distance of the last point from the mean of
  the 2 points before it exceeds twice their population standard deviation, every
  operation rounded to a double as the source computes it. On integer points of magnitude
  up to \<open>2 ^ 25\<close> nothing is rounded and this is the criterion over the reals. The series
  50, 52, 90 is flagged; so is 50, 51, 52 (distance 1.5, twice the deviation is 1).
\<close>

theorem detectAnomalies_decision:
  "(\<exists>res. detectAnomalies newId now d kpiId = Inr res) \<and>
   (gatherHistory d kpiId (historyPeriods now) = Inr xs \<and> length xs < 3 \<longrightarrow>
      detectAnomalies newId now d kpiId = Inr (False, d)) \<and>
   (gatherHistory d kpiId (historyPeriods now) = Inr (ys @ [a, b, r]) \<and>
    getKPI d kpiId = Inr ko \<and>
    (case ko of None \<Rightarrow> True | Some k \<Rightarrow> length (kpi_name k) \<le> 237) \<and>
    CreateAlert \<notin> down d \<longrightarrow>
      (\<exists>d'. detectAnomalies newId now d kpiId =
         Inr (\<bar>fsub r (meanOfTwo a b)\<bar> > fmul 2 (stdDevOfTwo a b), d'))) \<and>
   (gatherHistory d kpiId (historyPeriods now) = Inr (ys @ [of_int ia, of_int ib, of_int ir]) \<and>
    \<bar>ia\<bar> \<le> 2 ^ 25 \<and> \<bar>ib\<bar> \<le> 2 ^ 25 \<and> \<bar>ir\<bar> \<le> 2 ^ 25 \<and>
    getKPI d kpiId = Inr ko \<and>
    (case ko of None \<Rightarrow> True | Some k \<Rightarrow> length (kpi_name k) \<le> 237) \<and>
    CreateAlert \<notin> down d \<longrightarrow>
      (\<exists>d'. detectAnomalies newId now d kpiId =
         Inr (\<bar>real_of_int ir - (of_int ia + of_int ib) / 2\<bar> >
                2 * sqrt (((real_of_int ia - (of_int ia + of_int ib) / 2)\<^sup>2 +
                           (real_of_int ib - (of_int ia + of_int ib) / 2)\<^sup>2) / 2), d'))) \<and>
   (gatherHistory d kpiId (historyPeriods now) = Inr [50, 52, 90] \<and>
    getKPI d kpiId = Inr ko \<and>
    (case ko of None \<Rightarrow> True | Some k \<Rightarrow> length (kpi_name k) \<le> 237) \<and>
    CreateAlert \<notin> down d \<longrightarrow>
      (\<exists>d'. detectAnomalies newId now d kpiId = Inr (True, d'))) \<and>
   (gatherHistory d kpiId (historyPeriods now) = Inr [50, 51, 52] \<and>
    getKPI d kpiId = Inr ko \<and>
    (case ko of None \<Rightarrow> True | Some k \<Rightarrow> length (kpi_name k) \<le> 237) \<and>
    CreateAlert \<notin> down d \<longrightarrow>
      (\<exists>d'. detectAnomalies newId now d kpiId = Inr (True, d')))"
proof (intro conjI impI)
  show "\<exists>res. detectAnomalies newId now d kpiId = Inr res"
    by (cases "detectAnomalies_try newId now d kpiId") (auto simp: detectAnomalies_def)
next
  assume "gatherHistory d kpiId (historyPeriods now) = Inr xs \<and> length xs < 3"
  then show "detectAnomalies newId now d kpiId = Inr (False, d)"
    by (simp add: detectAnomalies_def detectAnomalies_try_def)
next
  assume "gatherHistory d kpiId (historyPeriods now) = Inr (ys @ [a, b, r]) \<and>
    getKPI d kpiId = Inr ko \<and>
    (case ko of None \<Rightarrow> True | Some k \<Rightarrow> length (kpi_name k) \<le> 237) \<and>
    CreateAlert \<notin> down d"
  then show "\<exists>d'. detectAnomalies newId now d kpiId =
         Inr (\<bar>fsub r (meanOfTwo a b)\<bar> > fmul 2 (stdDevOfTwo a b), d')"
    using detectAnomalies_flag [of d kpiId now ys a b r ko newId] by blast
next
  assume h: "gatherHistory d kpiId (historyPeriods now) =
      Inr (ys @ [of_int ia, of_int ib, of_int ir]) \<and>
    \<bar>ia\<bar> \<le> 2 ^ 25 \<and> \<bar>ib\<bar> \<le> 2 ^ 25 \<and> \<bar>ir\<bar> \<le> 2 ^ 25 \<and>
    getKPI d kpiId = Inr ko \<and>
    (case ko of None \<Rightarrow> True | Some k \<Rightarrow> length (kpi_name k) \<le> 237) \<and>
    CreateAlert \<notin> down d"
  then have b: "\<bar>ia\<bar> \<le> 2 ^ 25" "\<bar>ib\<bar> \<le> 2 ^ 25" "\<bar>ir\<bar> \<le> 2 ^ 25"
    by simp_all
  show "\<exists>d'. detectAnomalies newId now d kpiId =
         Inr (\<bar>real_of_int ir - (of_int ia + of_int ib) / 2\<bar> >
                2 * sqrt (((real_of_int ia - (of_int ia + of_int ib) / 2)\<^sup>2 +
                           (real_of_int ib - (of_int ia + of_int ib) / 2)\<^sup>2) / 2), d')"
    using detectAnomalies_flag [of d kpiId now ys "of_int ia" "of_int ib" "of_int ir" ko newId] h
    unfolding anomaly_int [OF b] by blast
next
  assume "gatherHistory d kpiId (historyPeriods now) = Inr [50, 52, 90] \<and>
    getKPI d kpiId = Inr ko \<and>
    (case ko of None \<Rightarrow> True | Some k \<Rightarrow> length (kpi_name k) \<le> 237) \<and>
    CreateAlert \<notin> down d"
  then show "\<exists>d'. detectAnomalies newId now d kpiId = Inr (True, d')"
    using detectAnomalies_flag [of d kpiId now "[]" 50 52 90 ko newId] anomalous_50_52_90
    by simp
next
  assume "gatherHistory d kpiId (historyPeriods now) = Inr [50, 51, 52] \<and>
    getKPI d kpiId = Inr ko \<and>
    (case ko of None \<Rightarrow> True | Some k \<Rightarrow> length (kpi_name k) \<le> 237) \<and>
    CreateAlert \<notin> down d"
  then show "\<exists>d'. detectAnomalies newId now d kpiId = Inr (True, d')"
    using detectAnomalies_flag [of d kpiId now "[]" 50 51 52 ko newId] anomalous_50_51_52
    by simp
qed

lemma getKPI_seriesDb_found:
  "getKPI (seriesDb vs) ''k1'' =
     Inr (Some \<lparr> kpi_id = ''k1'', kpi_name = ''Uptime'', kpi_pillarId = ''p1'',
                 kpi_departmentId = ''d1'', kpi_isActive = True, kd_pillar = pillar0,
                 kd_department = dept0, kd_status = Amber, kd_progress = 75 \<rparr>)"
  by (simp add: getKPI_seriesDb getKPI_db0)

theorem detectAnomalies_decision_witness:
  "gatherHistory (seriesDb [50, 52]) ''k1'' (historyPeriods now0) = Inr [50, 52] \<and>
   detectAnomalies ''a2'' now0 (seriesDb [50, 52]) ''k1'' = Inr (False, seriesDb [50, 52]) \<and>
   gatherHistory (seriesDb [50, 52, 90]) ''k1'' (historyPeriods now0) = Inr [50, 52, 90] \<and>
   length ''Uptime'' \<le> 237 \<and> CreateAlert \<notin> down (seriesDb [50, 52, 90]) \<and>
   (\<exists>d'. detectAnomalies ''a2'' now0 (seriesDb [50, 52, 90]) ''k1'' =
      Inr (\<bar>fsub 90 (meanOfTwo 50 52)\<bar> > fmul 2 (stdDevOfTwo 50 52), d')) \<and>
   (\<exists>d'. detectAnomalies ''a2'' now0 (seriesDb [50, 52, 90]) ''k1'' =
      Inr (\<bar>90 - (50 + 52) / 2\<bar> > 2 * sqrt (((50 - (50 + 52) / 2)\<^sup>2 +
                                               (52 - (50 + 52) / 2)\<^sup>2) / (2 :: real)), d')) \<and>
   (\<exists>d'. detectAnomalies ''a2'' now0 (seriesDb [50, 52, 90]) ''k1'' = Inr (True, d')) \<and>
   gatherHistory (seriesDb [50, 51, 52]) ''k1'' (historyPeriods now0) = Inr [50, 51, 52] \<and>
   (\<exists>d'. detectAnomalies ''a2'' now0 (seriesDb [50, 51, 52]) ''k1'' = Inr (True, d'))"
proof -
  let ?k = "\<lparr> kpi_id = ''k1'', kpi_name = ''Uptime'', kpi_pillarId = ''p1'',
              kpi_departmentId = ''d1'', kpi_isActive = True, kd_pillar = pillar0,
              kd_department = dept0, kd_status = Amber, kd_progress = 75 \<rparr>"
  have s: "gatherHistory (seriesDb [50, 52]) ''k1'' (historyPeriods now0) = Inr [50, 52] \<and>
           length [50, 52 :: real] < 3"
    by (simp add: gatherHistory_seriesDb2)
  have av: "getKPI (seriesDb vs) ''k1'' = Inr (Some ?k) \<and>
            (case Some ?k of None \<Rightarrow> True | Some k \<Rightarrow> length (kpi_name k) \<le> 237) \<and>
            CreateAlert \<notin> down (seriesDb vs)" for vs
    by (simp add: getKPI_seriesDb_found down_seriesDb)
  have a: "gatherHistory (seriesDb [50, 52, 90]) ''k1'' (historyPeriods now0) = Inr [50, 52, 90]"
    by (simp add: gatherHistory_seriesDb3)
  have a': "gatherHistory (seriesDb [50, 52, 90]) ''k1'' (historyPeriods now0) =
              Inr ([] @ [of_int 50, of_int 52, of_int 90])"
    by (simp add: gatherHistory_seriesDb3)
  have bnd: "\<bar>50 :: int\<bar> \<le> 2 ^ 25 \<and> \<bar>52 :: int\<bar> \<le> 2 ^ 25 \<and> \<bar>90 :: int\<bar> \<le> 2 ^ 25"
    by simp
  have b: "gatherHistory (seriesDb [50, 51, 52]) ''k1'' (historyPeriods now0) = Inr [50, 51, 52]"
    by (simp add: gatherHistory_seriesDb3)
  note t1 = detectAnomalies_decision [where newId = "''a2''" and now = now0
      and d = "seriesDb [50, 52]" and kpiId = "''k1''" and xs = "[50, 52]" and ys = "[]"
      and a = 50 and b = 52 and r = 90 and ko = "Some ?k" and ia = 50 and ib = 52 and ir = 90]
  note t2 = detectAnomalies_decision [where newId = "''a2''" and now = now0
      and d = "seriesDb [50, 52, 90]" and kpiId = "''k1''" and xs = "[50, 52]" and ys = "[]"
      and a = 50 and b = 52 and r = 90 and ko = "Some ?k" and ia = 50 and ib = 52 and ir = 90]
  note t3 = detectAnomalies_decision [where newId = "''a2''" and now = now0
      and d = "seriesDb [50, 51, 52]" and kpiId = "''k1''" and xs = "[50, 52]" and ys = "[]"
      and a = 50 and b = 52 and r = 90 and ko = "Some ?k" and ia = 50 and ib = 52 and ir = 90]
  have c1: "detectAnomalies ''a2'' now0 (seriesDb [50, 52]) ''k1'' = Inr (False, seriesDb [50, 52])"
    using t1 s by blast
  have c2: "\<exists>d'. detectAnomalies ''a2'' now0 (seriesDb [50, 52, 90]) ''k1'' =
      Inr (\<bar>fsub 90 (meanOfTwo 50 52)\<bar> > fmul 2 (stdDevOfTwo 50 52), d')"
    using t2 a av [of "[50, 52, 90]"] by simp
  have c3: "\<exists>d'. detectAnomalies ''a2'' now0 (seriesDb [50, 52, 90]) ''k1'' =
      Inr (\<bar>90 - (50 + 52) / 2\<bar> > 2 * sqrt (((50 - (50 + 52) / 2)\<^sup>2 +
                                               (52 - (50 + 52) / 2)\<^sup>2) / (2 :: real)), d')"
  proof -
    from t2 have "gatherHistory (seriesDb [50, 52, 90]) ''k1'' (historyPeriods now0) =
        Inr ([] @ [of_int 50, of_int 52, of_int 90]) \<and>
      \<bar>50 :: int\<bar> \<le> 2 ^ 25 \<and> \<bar>52 :: int\<bar> \<le> 2 ^ 25 \<and> \<bar>90 :: int\<bar> \<le> 2 ^ 25 \<and>
      getKPI (seriesDb [50, 52, 90]) ''k1'' = Inr (Some ?k) \<and>
      (case Some ?k of None \<Rightarrow> True | Some k \<Rightarrow> length (kpi_name k) \<le> 237) \<and>
      CreateAlert \<notin> down (seriesDb [50, 52, 90]) \<longrightarrow>
        (\<exists>d'. detectAnomalies ''a2'' now0 (seriesDb [50, 52, 90]) ''k1'' =
           Inr (\<bar>real_of_int 90 - (of_int 50 + of_int 52) / 2\<bar> >
                  2 * sqrt (((real_of_int 50 - (of_int 50 + of_int 52) / 2)\<^sup>2 +
                             (real_of_int 52 - (of_int 50 + of_int 52) / 2)\<^sup>2) / 2), d'))"
      by blast
    then have "\<exists>d'. detectAnomalies ''a2'' now0 (seriesDb [50, 52, 90]) ''k1'' =
           Inr (\<bar>real_of_int 90 - (of_int 50 + of_int 52) / 2\<bar> >
                  2 * sqrt (((real_of_int 50 - (of_int 50 + of_int 52) / 2)\<^sup>2 +
                             (real_of_int 52 - (of_int 50 + of_int 52) / 2)\<^sup>2) / 2), d')"
      using a' bnd av [of "[50, 52, 90]"] by blast
    then show ?thesis by simp
  qed
  have c4: "\<exists>d'. detectAnomalies ''a2'' now0 (seriesDb [50, 52, 90]) ''k1'' = Inr (True, d')"
    using t2 a av [of "[50, 52, 90]"] by blast
  have c5: "\<exists>d'. detectAnomalies ''a2'' now0 (seriesDb [50, 51, 52]) ''k1'' = Inr (True, d')"
    using t3 b av [of "[50, 51, 52]"] by blast
  have n: "length ''Uptime'' \<le> 237" by simp
  have dn: "CreateAlert \<notin> down (seriesDb [50, 52, 90])" by (simp add: down_seriesDb)
  show ?thesis
    using s a b c1 c2 c3 c4 c5 n dn by blast
qed

text \<open>The claim as written fails on the series 50, 51, 52: it is flagged, and the alert
  is inserted.\<close>

theorem detectAnomalies_50_51_52_counterexample:
  "detectAnomalies ''a2'' now0 (seriesDb [50, 51, 52]) ''k1'' =
     Inr (True, (seriesDb [50, 51, 52])\<lparr>alerts := [anomalyAlert0]\<rparr>)"
proof -
  have g: "gatherHistory (seriesDb [50, 51, 52]) ''k1'' (historyPeriods now0) =
             Inr ([] @ [50, 51, 52])"
    by (simp add: gatherHistory_seriesDb3)
  show ?thesis
    using detectAnomalies_found [OF g anomalous_50_51_52 getKPI_seriesDb_found,
                                 where newId = "''a2''"]
    by (simp add: down_seriesDb alerts_seriesDb anomalyAlert0_def)
qed

section \<open>Anomaly alerts\<close>

text \<open>
  Claim C7, as the code has it. Whenever detectAnomalies returns true, either the joined
  KPI lookup found no KPI, and then nothing is inserted, or it found the KPI, and then
  exactly one alert of type anomaly_detected with severity medium, unread and unresolved,
  has been appended to the alert table.
\<close>

theorem detectAnomalies_alert:
  "detectAnomalies newId now d kpiId = Inr (True, d') \<longrightarrow>
     (getKPI d kpiId = Inr None \<and> d' = d) \<or>
     (\<exists>k a. getKPI d kpiId = Inr (Some k) \<and> d' = d\<lparr>alerts := alerts d @ [a]\<rparr> \<and>
            alert_type a = ''anomaly_detected'' \<and> alert_severity a = medium \<and>
            alert_kpiId a = Some kpiId \<and> \<not> isRead a \<and> \<not> isResolved a)"
  by (auto simp: detectAnomalies_def detectAnomalies_try_def createAlert_def Let_def
           split: sum.splits option.splits prod.splits if_splits)

lemma detectAnomalies_seriesDb_50_52_90:
  "detectAnomalies ''a2'' now0 (seriesDb [50, 52, 90]) ''k1'' =
     Inr (True, (seriesDb [50, 52, 90])\<lparr>alerts := [anomalyAlert0]\<rparr>)"
proof -
  have g: "gatherHistory (seriesDb [50, 52, 90]) ''k1'' (historyPeriods now0) =
             Inr ([] @ [50, 52, 90])"
    by (simp add: gatherHistory_seriesDb3)
  show ?thesis
    using detectAnomalies_found [OF g anomalous_50_52_90 getKPI_seriesDb_found,
                                 where newId = "''a2''"]
    by (simp add: down_seriesDb alerts_seriesDb anomalyAlert0_def)
qed

theorem detectAnomalies_alert_witness:
  "detectAnomalies ''a2'' now0 (seriesDb [50, 52, 90]) ''k1'' =
     Inr (True, (seriesDb [50, 52, 90])\<lparr>alerts := [anomalyAlert0]\<rparr>) \<and>
   getKPI (seriesDb [50, 52, 90]) ''k1'' \<noteq> Inr None \<and>
   (\<exists>a. (seriesDb [50, 52, 90])\<lparr>alerts := [anomalyAlert0]\<rparr> =
          (seriesDb [50, 52, 90])\<lparr>alerts := alerts (seriesDb [50, 52, 90]) @ [a]\<rparr> \<and>
        alert_type a = ''anomaly_detected'' \<and> alert_severity a = medium)"
proof -
  have k: "getKPI (seriesDb [50, 52, 90]) ''k1'' \<noteq> Inr None"
    by (simp add: getKPI_seriesDb getKPI_db0)
  show ?thesis
    using detectAnomalies_seriesDb_50_52_90 k
      detectAnomalies_alert [of "''a2''" now0 "seriesDb [50, 52, 90]" "''k1''"
                                 "(seriesDb [50, 52, 90])\<lparr>alerts := [anomalyAlert0]\<rparr>"]
    by blast
qed

text \<open>The claim as written fails when the joined KPI lookup finds nothing: the anomaly is
  reported and the alert table stays empty.\<close>

lemma getKPI_db_orphan: "getKPI db_orphan ''k1'' = Inr None"
  by (simp add: getKPI_def db_orphan_def seriesDb_def db0_def)

theorem detectAnomalies_no_alert_counterexample:
  "detectAnomalies ''a2'' now0 db_orphan ''k1'' = Inr (True, db_orphan) \<and>
   alerts db_orphan = []"
proof
  have g: "gatherHistory db_orphan ''k1'' (historyPeriods now0) = Inr ([] @ [50, 52, 90])"
    by (simp add: db_orphan_def gatherHistory_departments gatherHistory_seriesDb3)
  show "detectAnomalies ''a2'' now0 db_orphan ''k1'' = Inr (True, db_orphan)"
    by (rule detectAnomalies_no_kpi [OF g anomalous_50_52_90 getKPI_db_orphan])
  show "alerts db_orphan = []"
    by (simp add: db_orphan_def alerts_seriesDb)
qed

section \<open>Rounding at the boundary of the anomaly criterion\<close>

text \<open>The correctly rounded square root, from bounds on the squares.\<close>

lemma rnd_sqrt_evalI:
  assumes u: "u = 2 powr (of_int e - 52)" and e: "- 1022 \<le> e"
    and lo: "(u * 2 ^ 52)\<^sup>2 \<le> v" and hi: "v < (u * 2 ^ 53)\<^sup>2"
    and n1: "((of_int n - 1 / 2) * u)\<^sup>2 < v" and n2: "v < ((of_int n + 1 / 2) * u)\<^sup>2"
    and np: "1 \<le> n"
  shows "rnd (sqrt v) = of_int n * u"
proof -
  have up: "0 < u"
    by (simp add: u)
  have v0: "0 \<le> v"
    using lo zero_le_power2 [of "u * 2 ^ 52"] by linarith
  have s0: "0 \<le> sqrt v"
    using v0 by simp
  have "u * 2 ^ 52 \<le> sqrt v"
    by (rule real_le_rsqrt) (rule lo)
  then have b1: "u * 2 ^ 52 \<le> \<bar>sqrt v\<bar>"
    using s0 by simp
  have "sqrt v < u * 2 ^ 53"
    by (rule real_less_lsqrt) (use up in simp, rule hi)
  then have b2: "\<bar>sqrt v\<bar> < u * 2 ^ 53"
    using s0 by simp
  have a: "(of_int n - 1 / 2) * u < sqrt v"
    by (rule real_less_rsqrt) (rule n1)
  have "0 \<le> (real_of_int n + 1 / 2) * u"
    using np up by simp
  then have b: "sqrt v < (of_int n + 1 / 2) * u"
    by (rule real_less_lsqrt) (rule n2)
  have "of_int n - 1 / 2 < sqrt v / u" and "sqrt v / u < of_int n + 1 / 2"
    using a b up by (simp_all add: pos_less_divide_eq pos_divide_less_eq)
  then have "\<bar>sqrt v / u - of_int n\<bar> < 1 / 2"
    by linarith
  then have r: "roundEven (sqrt v / u) = n"
    by (rule roundEven_near)
  show ?thesis
    by (rule rnd_evalI [OF u b1 b2 e r])
qed

text \<open>The series 0.01, 0.05, 0.07, step by step as the source computes it. The doubles
  nearest to the three points:\<close>

lemma parseFloat_0_01: "parseFloat 0.01 = 5764607523034235 / 2 ^ 59"
proof -
  have "rnd 0.01 = of_int 5764607523034235 * (1 / 2 ^ 59)"
    by (rule rnd_evalI [where e = "- 7"]) (simp_all add: roundEven_def)
  then show ?thesis by (simp add: parseFloat_def)
qed

lemma parseFloat_0_05: "parseFloat 0.05 = 3602879701896397 / 2 ^ 56"
proof -
  have "rnd 0.05 = of_int 7205759403792794 * (1 / 2 ^ 57)"
    by (rule rnd_evalI [where e = "- 5"]) (simp_all add: roundEven_def)
  then show ?thesis by (simp add: parseFloat_def)
qed

lemma parseFloat_0_07: "parseFloat 0.07 = 1261007895663739 / 2 ^ 54"
proof -
  have "rnd 0.07 = of_int 5044031582654956 * (1 / 2 ^ 56)"
    by (rule rnd_evalI [where e = "- 4"]) (simp_all add: roundEven_def)
  then show ?thesis by (simp add: parseFloat_def)
qed

text \<open>The mean of the two previous points.\<close>

lemma mean_0_01_0_05:
  "meanOfTwo (5764607523034235 / 2 ^ 59) (3602879701896397 / 2 ^ 56) =
     8646911284551353 / 2 ^ 58"
proof -
  have i: "fadd 0 (5764607523034235 / 2 ^ 59) = 5764607523034235 / 2 ^ 59"
    using rnd_scaled [of 5764607523034235 59] by (simp add: fadd_def)
  have "rnd (5764607523034235 / 2 ^ 59 + 3602879701896397 / 2 ^ 56) =
          of_int 8646911284551353 * (1 / 2 ^ 57)"
    by (rule rnd_evalI [where e = "- 5"]) (simp_all add: roundEven_def)
  then have s: "fadd (5764607523034235 / 2 ^ 59) (3602879701896397 / 2 ^ 56) =
                  8646911284551353 / 2 ^ 57"
    by (simp add: fadd_def)
  have d: "fdiv (8646911284551353 / 2 ^ 57) 2 = 8646911284551353 / 2 ^ 58"
    using rnd_scaled [of 8646911284551353 58] by (simp add: fdiv_def)
  show ?thesis
    unfolding meanOfTwo_def i s d by (rule refl)
qed

text \<open>The two deviations from the mean and their squares.\<close>

lemma deviation_0_01:
  "fsub (5764607523034235 / 2 ^ 59) (8646911284551353 / 2 ^ 58) =
     - (1441151880758559 / 2 ^ 56)"
proof -
  have "rnd (5764607523034235 / 2 ^ 59 - 8646911284551353 / 2 ^ 58) =
          of_int (- 5764607523034236) * (1 / 2 ^ 58)"
    by (rule rnd_evalI [where e = "- 6"]) (simp_all add: roundEven_def)
  then show ?thesis by (simp add: fsub_def)
qed

lemma deviation_0_05:
  "fsub (3602879701896397 / 2 ^ 56) (8646911284551353 / 2 ^ 58) =
     5764607523034235 / 2 ^ 58"
proof -
  have "rnd (3602879701896397 / 2 ^ 56 - 8646911284551353 / 2 ^ 58) =
          of_int 5764607523034235 * (1 / 2 ^ 58)"
    by (rule rnd_evalI [where e = "- 6"]) (simp_all add: roundEven_def)
  then show ?thesis by (simp add: fsub_def)
qed

lemma square_0_01:
  "Math_pow (- (1441151880758559 / 2 ^ 56)) 2 = 461168601842739 / 2 ^ 60"
proof -
  have "rnd ((- (1441151880758559 / 2 ^ 56))\<^sup>2) = of_int 7378697629483824 * (1 / 2 ^ 64)"
    by (rule rnd_evalI [where e = "- 12"]) (simp_all add: roundEven_def power2_eq_square)
  then show ?thesis by (simp add: Math_pow_def)
qed

lemma square_0_05:
  "Math_pow (5764607523034235 / 2 ^ 58) 2 = 7378697629483821 / 2 ^ 64"
proof -
  have "rnd ((5764607523034235 / 2 ^ 58)\<^sup>2) = of_int 7378697629483821 * (1 / 2 ^ 64)"
    by (rule rnd_evalI [where e = "- 12"]) (simp_all add: roundEven_def power2_eq_square)
  then show ?thesis by (simp add: Math_pow_def)
qed

text \<open>The variance and the standard deviation.\<close>

lemma variance_0_01_0_05:
  "fdiv (fadd (fadd 0 (461168601842739 / 2 ^ 60)) (7378697629483821 / 2 ^ 64)) 2 =
     3689348814741911 / 2 ^ 63"
proof -
  have i: "fadd 0 (461168601842739 / 2 ^ 60) = 461168601842739 / 2 ^ 60"
    using rnd_scaled [of 461168601842739 60] by (simp add: fadd_def)
  have "rnd (461168601842739 / 2 ^ 60 + 7378697629483821 / 2 ^ 64) =
          of_int 7378697629483822 * (1 / 2 ^ 63)"
    by (rule rnd_evalI [where e = "- 11"]) (simp_all add: roundEven_def)
  then have s: "fadd (461168601842739 / 2 ^ 60) (7378697629483821 / 2 ^ 64) =
                  3689348814741911 / 2 ^ 62"
    by (simp add: fadd_def)
  have d: "fdiv (3689348814741911 / 2 ^ 62) 2 = 3689348814741911 / 2 ^ 63"
    using rnd_scaled [of 3689348814741911 63] by (simp add: fdiv_def)
  show ?thesis
    unfolding i s d by (rule refl)
qed

lemma stdDev_0_01_0_05:
  "Math_sqrt (3689348814741911 / 2 ^ 63) = 5764607523034235 / 2 ^ 58"
proof -
  have "rnd (sqrt (3689348814741911 / 2 ^ 63)) = of_int 5764607523034235 * (1 / 2 ^ 58)"
    by (rule rnd_sqrt_evalI [where e = "- 6"]) (simp_all add: power2_eq_square)
  then show ?thesis by (simp add: Math_sqrt_def)
qed

lemma stdDevOfTwo_0_01_0_05:
  "stdDevOfTwo (5764607523034235 / 2 ^ 59) (3602879701896397 / 2 ^ 56) =
     5764607523034235 / 2 ^ 58"
  unfolding stdDevOfTwo_def mean_0_01_0_05 deviation_0_01 deviation_0_05 square_0_01
    square_0_05 variance_0_01_0_05 stdDev_0_01_0_05
  by (rule refl)

text \<open>The distance of the last point from the mean, and twice the deviation.\<close>

lemma distance_0_07:
  "fsub (1261007895663739 / 2 ^ 54) (8646911284551353 / 2 ^ 58) = 1441151880758559 / 2 ^ 55"
proof -
  have "rnd (1261007895663739 / 2 ^ 54 - 8646911284551353 / 2 ^ 58) =
          of_int 5764607523034236 * (1 / 2 ^ 57)"
    by (rule rnd_evalI [where e = "- 5"]) (simp_all add: roundEven_def)
  then show ?thesis by (simp add: fsub_def)
qed

lemma twice_stdDev_0_01_0_05:
  "fmul 2 (5764607523034235 / 2 ^ 58) = 5764607523034235 / 2 ^ 57"
  using rnd_scaled [of 5764607523034235 57] by (simp add: fmul_def)

text \<open>
  Over the reals the distance of 0.07 from the mean 0.03 and twice the deviation 0.02
  are both 0.04, and the series is not flagged. The source compares the doubles
  0.04000000000000001 and 0.04, and flags it.
\<close>

lemma anomalous_0_01_0_05_0_07:
  "\<bar>fsub (parseFloat 0.07) (meanOfTwo (parseFloat 0.01) (parseFloat 0.05))\<bar> >
     fmul 2 (stdDevOfTwo (parseFloat 0.01) (parseFloat 0.05))"
  unfolding parseFloat_0_01 parseFloat_0_05 parseFloat_0_07 mean_0_01_0_05
    stdDevOfTwo_0_01_0_05 distance_0_07 twice_stdDev_0_01_0_05
  by simp

lemma not_anomalous_over_reals:
  "\<not> \<bar>0.07 - (0.01 + 0.05) / 2\<bar> >
       2 * sqrt (((0.01 - (0.01 + 0.05) / 2)\<^sup>2 + (0.05 - (0.01 + 0.05) / 2)\<^sup>2) / (2 :: real))"
  unfolding stdDev_two by simp

lemma detectAnomalies_rounding:
  "detectAnomalies ''a2'' now0 (seriesDb [0.01, 0.05, 0.07]) ''k1'' =
     Inr (True, (seriesDb [0.01, 0.05, 0.07])\<lparr>alerts := [anomalyAlert0]\<rparr>)"
proof -
  have g: "gatherHistory (seriesDb [0.01, 0.05, 0.07]) ''k1'' (historyPeriods now0) =
             Inr ([] @ [parseFloat 0.01, parseFloat 0.05, parseFloat 0.07])"
    by (simp only: gatherHistory_seriesDb3 append_Nil)
  show ?thesis
    using detectAnomalies_found [OF g anomalous_0_01_0_05_0_07 getKPI_seriesDb_found,
                                 where newId = "''a2''"]
    by (simp add: down_seriesDb alerts_seriesDb anomalyAlert0_def)
qed

section \<open>Forecast\<close>

lemma Math_round_numeral [simp]:
  "Math_round 100 = 100" "Math_round 90 = 90" "Math_round 80 = 80" "Math_round 70 = 70"
  "Math_round 36000 = 36000"
  by (simp_all add: Math_round_def)

text \<open>generateForecast on the exact linear series 10, 20, 30, 40.\<close>

lemma generateForecast_linear:
  assumes "gatherHistory d kpiId (historyPeriods now) = Inr [10, 20, 30, 40]"
  shows "generateForecast now d kpiId =
           Inr \<lparr> fr_kpiId = kpiId,
                 forecast = [\<lparr> predictedValue = 50, confidence = 1 \<rparr>,
                             \<lparr> predictedValue = 60, confidence = 0.9 \<rparr>,
                             \<lparr> predictedValue = 70, confidence = 0.8 \<rparr>,
                             \<lparr> predictedValue = 80, confidence = 0.7 \<rparr>],
                 trend = increasing,
                 recommendation = ''Performance is trending upward. Continue current strategies and consider scaling successful initiatives.'' \<rparr>"
  by (simp add: generateForecast_def generateForecast_try_def assms enumerate_eq_zip upt_rec
        Let_def)

lemma gatherHistory_linear:
  "gatherHistory (seriesDb [10, 20, 30, 40]) ''k1'' (historyPeriods now0) = Inr [10, 20, 30, 40]"
  by (simp add: gatherHistory_seriesDb4)

lemma generateForecast_confidence:
  assumes "gatherHistory d kpiId (historyPeriods now) = Inr xs" and "2 \<le> length xs"
  shows "\<exists>res. generateForecast now d kpiId = Inr res \<and>
               map confidence (forecast res) = [1, 0.9, 0.8, 0.7]"
  using assms
  by (simp add: generateForecast_def generateForecast_try_def Let_def Math_round_def)

text \<open>
  Claim C5, as the code has it. On the exact linear series 10, 20, 30, 40 (fitted slope 10,
  intercept 10 at index 0) the forecast is 50, 60, 70, 80 for the next four periods with
  confidences 1.0, 0.9, 0.8, 0.7 and trend increasing: period 5 (index 4) is predicted as
  50 with confidence 1.0, and the value 60 belongs to period 6 with confidence 0.9. For
  every series of at least 2 points the four confidences are 1.0, 0.9, 0.8, 0.7: one minus
  0.1 per step ahead, rounded to 2 decimals, with the floor 0.6 never reached in 4 steps.
\<close>

theorem generateForecast_linear_series:
  "(gatherHistory d kpiId (historyPeriods now) = Inr [10, 20, 30, 40] \<longrightarrow>
      generateForecast now d kpiId =
        Inr \<lparr> fr_kpiId = kpiId,
              forecast = [\<lparr> predictedValue = 50, confidence = 1 \<rparr>,
                          \<lparr> predictedValue = 60, confidence = 0.9 \<rparr>,
                          \<lparr> predictedValue = 70, confidence = 0.8 \<rparr>,
                          \<lparr> predictedValue = 80, confidence = 0.7 \<rparr>],
              trend = increasing,
              recommendation = ''Performance is trending upward. Continue current strategies and consider scaling successful initiatives.'' \<rparr>) \<and>
   (gatherHistory d kpiId (historyPeriods now) = Inr xs \<and> 2 \<le> length xs \<longrightarrow>
      (\<exists>res. generateForecast now d kpiId = Inr res \<and>
             map confidence (forecast res) = [1, 0.9, 0.8, 0.7]))"
  using generateForecast_linear [of d kpiId now] generateForecast_confidence [of d kpiId now xs]
  by blast

theorem generateForecast_linear_series_witness:
  "gatherHistory (seriesDb [10, 20, 30, 40]) ''k1'' (historyPeriods now0) = Inr [10, 20, 30, 40] \<and>
   2 \<le> length [10, 20, 30, 40 :: real] \<and>
   generateForecast now0 (seriesDb [10, 20, 30, 40]) ''k1'' =
        Inr \<lparr> fr_kpiId = ''k1'',
              forecast = [\<lparr> predictedValue = 50, confidence = 1 \<rparr>,
                          \<lparr> predictedValue = 60, confidence = 0.9 \<rparr>,
                          \<lparr> predictedValue = 70, confidence = 0.8 \<rparr>,
                          \<lparr> predictedValue = 80, confidence = 0.7 \<rparr>],
              trend = increasing,
              recommendation = ''Performance is trending upward. Continue current strategies and consider scaling successful initiatives.'' \<rparr> \<and>
   (\<exists>res. generateForecast now0 (seriesDb [10, 20, 30, 40]) ''k1'' = Inr res \<and>
          map confidence (forecast res) = [1, 0.9, 0.8, 0.7])"
proof -
  have g: "gatherHistory (seriesDb [10, 20, 30, 40]) ''k1'' (historyPeriods now0) = Inr [10, 20, 30, 40]"
    by (rule gatherHistory_linear)
  have l: "2 \<le> length [10, 20, 30, 40 :: real]"
    by simp
  show ?thesis
    using g l
      generateForecast_linear_series [of "seriesDb [10, 20, 30, 40]" "''k1''" now0 "[10, 20, 30, 40]"]
    by blast
qed

text \<open>The claim as written fails: the point with confidence 1.0 is 50, and 60 comes with
  confidence 0.9.\<close>

theorem generateForecast_period_5_counterexample:
  "generateForecast now0 (seriesDb [10, 20, 30, 40]) ''k1'' =
        Inr \<lparr> fr_kpiId = ''k1'',
              forecast = [\<lparr> predictedValue = 50, confidence = 1 \<rparr>,
                          \<lparr> predictedValue = 60, confidence = 0.9 \<rparr>,
                          \<lparr> predictedValue = 70, confidence = 0.8 \<rparr>,
                          \<lparr> predictedValue = 80, confidence = 0.7 \<rparr>],
              trend = increasing,
              recommendation = ''Performance is trending upward. Continue current strategies and consider scaling successful initiatives.'' \<rparr>"
  by (rule generateForecast_linear [OF gatherHistory_linear])

section \<open>Scenarios\<close>

text \<open>The doubles of the evaluation at current value 100: 0.1, 0.2 and 0.8, twenty per
  cent of change, its tenth part, and the confidence.\<close>

lemma rnd_0_1: "rnd (1 / 10) = 3602879701896397 / 2 ^ 55"
proof -
  have "rnd (1 / 10) = of_int 7205759403792794 * (1 / 2 ^ 56)"
    by (rule rnd_evalI [where e = "- 4"]) (simp_all add: roundEven_def)
  then show ?thesis by simp
qed

lemma rnd_0_2: "rnd (1 / 5) = 3602879701896397 / 2 ^ 54"
proof -
  have "rnd (1 / 5) = of_int 7205759403792794 * (1 / 2 ^ 55)"
    by (rule rnd_evalI [where e = "- 3"]) (simp_all add: roundEven_def)
  then show ?thesis by simp
qed

lemma rnd_0_8: "rnd (4 / 5) = 3602879701896397 / 2 ^ 52"
proof -
  have "rnd (4 / 5) = of_int 7205759403792794 * (1 / 2 ^ 53)"
    by (rule rnd_evalI [where e = "- 1"]) (simp_all add: roundEven_def)
  then show ?thesis by simp
qed

lemma fmul_0_2_100: "rnd (3602879701896397 / 2 ^ 54 * 100) = 20"
proof -
  have "rnd (3602879701896397 / 2 ^ 54 * 100) = of_int 5629499534213120 * (1 / 2 ^ 48)"
    by (rule rnd_evalI [where e = 4]) (simp_all add: roundEven_def)
  then show ?thesis by simp
qed

lemma fmul_20_0_1: "rnd (20 * (3602879701896397 / 2 ^ 55)) = 2"
proof -
  have "rnd (20 * (3602879701896397 / 2 ^ 55)) = of_int 4503599627370496 * (1 / 2 ^ 51)"
    by (rule rnd_evalI [where e = 1]) (simp_all add: roundEven_def)
  then show ?thesis by simp
qed

lemma fsub_1_0_2: "rnd (1 - 3602879701896397 / 2 ^ 54) = 3602879701896397 / 2 ^ 52"
proof -
  have "rnd (1 - 3602879701896397 / 2 ^ 54) = of_int 7205759403792794 * (1 / 2 ^ 53)"
    by (rule rnd_evalI [where e = "- 1"]) (simp_all add: roundEven_def)
  then show ?thesis by simp
qed

lemma fmul_0_8_100: "rnd (3602879701896397 / 2 ^ 52 * 100) = 80"
proof -
  have "rnd (3602879701896397 / 2 ^ 52 * 100) = of_int 5629499534213120 * (1 / 2 ^ 46)"
    by (rule rnd_evalI [where e = 6]) (simp_all add: roundEven_def)
  then show ?thesis by simp
qed

lemma changePercent_100: "changePercent 100 120 = 20" "changePercent 100 80 = - 20"
proof -
  have a: "fdiv (fsub 120 100) 100 = 3602879701896397 / 2 ^ 54"
    using rnd_0_2 by (simp add: fdiv_def fsub_def)
  have "fsub 80 100 = - 20"
    using rnd_minus [of 20] by (simp add: fsub_def)
  then have b: "fdiv (fsub 80 100) 100 = - (3602879701896397 / 2 ^ 54)"
    using rnd_minus [of "1 / 5"] rnd_0_2 by (simp add: fdiv_def)
  show "changePercent 100 120 = 20"
    using fmul_0_2_100 by (simp add: changePercent_def a fmul_def)
  show "changePercent 100 80 = - 20"
    using rnd_minus [of "3602879701896397 / 2 ^ 54 * 100"] fmul_0_2_100
    by (simp add: changePercent_def b fmul_def)
qed

lemma projected_100: "fmul 120 (fadd 1 (fmul 20 (rnd 0.1))) = 360"
  "fmul 80 (fadd 1 (fmul (- 20) (rnd 0.1))) = - 80"
proof -
  have t: "fmul 20 (rnd 0.1) = 2"
    by (simp only: fmul_def rnd_0_1 fmul_20_0_1)
  have "fmul (- 20) (rnd 0.1) = - 2"
    by (simp only: fmul_def rnd_0_1 mult_minus_left rnd_minus fmul_20_0_1)
  then have n: "fadd 1 (fmul (- 20) (rnd 0.1)) = - 1"
    using rnd_minus [of 1] by (simp add: fadd_def)
  have "fmul 120 (fadd 1 2) = 360"
    by (simp add: fadd_def fmul_def)
  then show "fmul 120 (fadd 1 (fmul 20 (rnd 0.1))) = 360"
    by (simp only: t)
  have "fmul 80 (- 1) = - 80"
    using rnd_minus [of 80] by (simp add: fmul_def)
  then show "fmul 80 (fadd 1 (fmul (- 20) (rnd 0.1))) = - 80"
    by (simp only: n)
qed

lemma rounded_100: "fdiv (Math_round (fmul 360 100)) 100 = 360"
  "fdiv (Math_round (fmul (- 80) 100)) 100 = - 80"
proof -
  show "fdiv (Math_round (fmul 360 100)) 100 = 360"
    by (simp add: fmul_def fdiv_def Math_round_def)
  have "fmul (- 80) 100 = - 8000"
    using rnd_minus [of 8000] by (simp add: fmul_def)
  then show "fdiv (Math_round (fmul (- 80) 100)) 100 = - 80"
    using rnd_minus [of 80] by (simp add: fdiv_def Math_round_def)
qed

lemma confidence_100:
  "fdiv (Math_round (fmul (max (1 / 2) (fsub 1 (fdiv 20 100))) 100)) 100 = rnd 0.8"
proof -
  have q: "(20 :: real) / 100 = 1 / 5"
    by simp
  have a: "fsub 1 (fdiv 20 100) = 3602879701896397 / 2 ^ 52"
    by (simp only: fsub_def fdiv_def q rnd_0_2 fsub_1_0_2)
  have b: "max (1 / 2) (3602879701896397 / 2 ^ 52 :: real) = 3602879701896397 / 2 ^ 52"
    by simp
  have c: "fmul (3602879701896397 / 2 ^ 52) 100 = 80"
    using fmul_0_8_100 by (simp add: fmul_def)
  have e: "fdiv (Math_round 80) 100 = rnd 0.8"
    by (simp add: Math_round_def fdiv_def)
  show ?thesis
    by (simp only: a b c e)
qed

lemma getActuals_current_seriesDb:
  "getActuals (seriesDb [w, x, y, z]) ''k1'' (getFullYear now0) (Some (currentQuarter now0)) =
     Inr [\<lparr> actual_id = ''a-t1'', actual_kpiId = ''k1'', actual_targetId = ''t1'',
            actualValue = z \<rparr>]"
  by (simp add: getActuals_def seriesDb_def periodTargets_def mkTarget_def target0_def db0_def
        currentQuarter_now0 getFullYear_now0)

text \<open>
  Claim C3 fails on the code. With current-period actual value 100 and the hypothetical
  input value 120, changePercent is 20 and the impact is positive, but the projected
  outcome returned is 360, not 122.4: the source multiplies the input by
  1 + changePercent times 0.1, which adds a tenth of a percentage to 1 (a factor of 3
  here), where its own comment announces an amplification of 10 per cent and the
  confidence, two lines below, divides the same changePercent by 100 first. An input of
  80, a change of minus 20 per cent, is projected to minus 80. The confidence returned
  is the double nearest to 0.8.
\<close>

theorem runScenarioTest_amplification:
  "runScenarioTest now0 (seriesDb [70, 80, 90, 100]) ''k1''
       [\<lparr> sc_name = Some ''Push'', sc_value = Some 120 \<rparr>,
        \<lparr> sc_name = Some ''Cut'', sc_value = Some 80 \<rparr>] =
     Inr \<lparr> st_kpiId = ''k1'',
           scenarios = [\<lparr> so_name = ''Push'', inputValue = 120, projectedOutcome = 360,
                          impact = positive, so_confidence = rnd 0.8 \<rparr>,
                        \<lparr> so_name = ''Cut'', inputValue = 80, projectedOutcome = - 80,
                          impact = negative, so_confidence = rnd 0.8 \<rparr>],
           recommendations = [''Consider implementing strategies similar to: Push'',
                              ''Avoid strategies that could lead to: Cut''] \<rparr>"
proof -
  have s1: "scenarioOf 100 (0, \<lparr> sc_name = Some ''Push'', sc_value = Some 120 \<rparr>) =
              \<lparr> so_name = ''Push'', inputValue = 120, projectedOutcome = 360,
                impact = positive, so_confidence = rnd 0.8 \<rparr>"
    by (simp add: scenarioOf_def changePercent_100 projected_100 rounded_100 confidence_100
          Let_def del: rnd_numeral)
  have s2: "scenarioOf 100 (Suc 0, \<lparr> sc_name = Some ''Cut'', sc_value = Some 80 \<rparr>) =
              \<lparr> so_name = ''Cut'', inputValue = 80, projectedOutcome = - 80,
                impact = negative, so_confidence = rnd 0.8 \<rparr>"
    by (simp add: scenarioOf_def changePercent_100 projected_100 rounded_100 confidence_100
          Let_def del: rnd_numeral)
  show ?thesis
    by (simp add: runScenarioTest_def runScenarioTest_try_def getKPI_seriesDb_found
          getActuals_current_seriesDb s1 s2 Let_def)
qed

section \<open>Department performance\<close>

text \<open>
  Claim C2 fails on the code: getDepartmentPerformance draws every figure from
  \<open>Math.random()\<close>. Over the same stored data, year and quarter, two runs whose random
  draws differ return different scores, statuses, KPI counts and trends.
\<close>

theorem getDepartmentPerformance_random:
  "getDepartmentPerformance randZero db0 2025 2 =
     Inr [\<lparr> dp_id = ''d1'', dp_name = ''Operations'', dp_code = ''OPS'', score = 60,
            dp_status = Red, kpiCount = 10, dp_trend = - 10 \<rparr>] \<and>
   getDepartmentPerformance randHalf db0 2025 2 =
     Inr [\<lparr> dp_id = ''d1'', dp_name = ''Operations'', dp_code = ''OPS'', score = 80,
            dp_status = Amber, kpiCount = 17, dp_trend = 0 \<rparr>]"
  by (simp add: getDepartmentPerformance_def getDepartments_def db0_def dept0_def randZero_def
        randHalf_def Let_def)

section \<open>Alert lifecycle\<close>

lemma alert_id_setAlert [simp]: "alert_id (setAlert u a) = alert_id a"
  by (simp add: setAlert_def)

lemma first_updated_row:
  "(case filter (\<lambda>a. alert_id a = i)
           (map (\<lambda>a. if alert_id a = i then setAlert u a else a) xs) of
      [] \<Rightarrow> None | a # _ \<Rightarrow> Some a) =
   map_option (setAlert u) (find (\<lambda>a. alert_id a = i) xs)"
  by (induction xs) auto

text \<open>The route applies the update to every row with the given id and answers with the
  first of them.\<close>

lemma patchAlert_rows:
  assumes "UpdateAlert \<notin> down d"
    and "body_isRead body \<noteq> None \<or> body_isResolved body \<noteq> None"
  shows "patchAlert userId now i body d =
           (AlertJson (map_option (setAlert (alertUpdatesOf userId now body))
                         (find (\<lambda>a. alert_id a = i) (alerts d))),
            d\<lparr>alerts := map (\<lambda>a. if alert_id a = i
                                   then setAlert (alertUpdatesOf userId now body) a else a)
                             (alerts d)\<rparr>)"
  using assms
  by (auto simp: patchAlert_def updateAlert_def alertUpdatesOf_def Let_def first_updated_row
           split: option.splits)

lemma patchAlert_down:
  assumes "UpdateAlert \<in> down d"
  shows "patchAlert userId now i body d = (Failed 500 ''Failed to update alert'', d)"
  using assms by (simp add: patchAlert_def updateAlert_def)

text \<open>A body with neither flag builds an update with no key: the route answers 500 and
  writes nothing.\<close>

lemma patchAlert_empty:
  assumes "body_isRead body = None" and "body_isResolved body = None"
  shows "patchAlert userId now i body d = (Failed 500 ''Failed to update alert'', d)"
  using assms by (simp add: patchAlert_def updateAlert_def alertUpdatesOf_def)

lemma setAlert_empty:
  assumes "body_isRead body = None" and "body_isResolved body = None"
  shows "setAlert (alertUpdatesOf userId now body) a = a"
  using assms by (simp add: setAlert_def alertUpdatesOf_def)

lemma setAlert_resolved_given:
  assumes "body_isResolved body = Some b"
  shows "setAlert (alertUpdatesOf userId now body) a =
           a\<lparr> isRead := (case body_isRead body of None \<Rightarrow> isRead a | Some r \<Rightarrow> r),
              isResolved := b, resolvedBy := Some userId, resolvedAt := Some now \<rparr>"
  using assms by (simp add: setAlert_def alertUpdatesOf_def split: option.splits)

lemma setAlert_resolved_absent:
  assumes "body_isResolved body = None"
  shows "setAlert (alertUpdatesOf userId now body) a =
           a\<lparr> isRead := (case body_isRead body of None \<Rightarrow> isRead a | Some r \<Rightarrow> r) \<rparr>"
  using assms by (simp add: setAlert_def alertUpdatesOf_def split: option.splits)

lemma map_field_updated:
  assumes "\<And>a. f (g a) = f a"
  shows "map f (map (\<lambda>a. if alert_id a = i then g a else a) xs) = map f xs"
  using assms by (induction xs) simp_all

lemma updated_rows_field:
  assumes "x \<in> set (map (\<lambda>a. if alert_id a = i then setAlert u a else a) xs)"
    and "alert_id x = i"
  shows "\<exists>a. x = setAlert u a"
  using assms by (induction xs) (auto split: if_splits)

lemma alerts_patchAlert:
  assumes "UpdateAlert \<notin> down d"
  shows "alerts (snd (patchAlert userId now i body d)) =
           map (\<lambda>a. if alert_id a = i then setAlert (alertUpdatesOf userId now body) a else a)
             (alerts d)"
proof (cases "body_isRead body = None \<and> body_isResolved body = None")
  case True
  then have "map (\<lambda>a. if alert_id a = i then setAlert (alertUpdatesOf userId now body) a else a)
               (alerts d) = map (\<lambda>a. a) (alerts d)"
    by (intro map_cong) (simp_all add: setAlert_empty)
  then show ?thesis
    using True by (simp add: patchAlert_empty)
next
  case False
  then show ?thesis
    by (simp add: patchAlert_rows [OF assms])
qed

text \<open>
  Claim C10. With the alert store available, a request body that contains isResolved, with
  either boolean value, sets every stored alert with the requested id to that value and
  records the requesting user as resolvedBy and the current time as resolvedAt; the rows
  and their ids stay in place. A body without isResolved (one that contains only isRead)
  leaves isResolved, resolvedBy and resolvedAt of every stored alert unchanged.
\<close>

theorem patchAlert_resolution_fields:
  "UpdateAlert \<notin> down d \<longrightarrow>
     map alert_id (alerts (snd (patchAlert userId now i body d))) = map alert_id (alerts d) \<and>
     (body_isResolved body = Some b \<longrightarrow>
        (\<forall>x \<in> set (alerts (snd (patchAlert userId now i body d))).
           alert_id x = i \<longrightarrow>
             isResolved x = b \<and> resolvedBy x = Some userId \<and> resolvedAt x = Some now)) \<and>
     (body_isResolved body = None \<longrightarrow>
        map isResolved (alerts (snd (patchAlert userId now i body d))) =
          map isResolved (alerts d) \<and>
        map resolvedBy (alerts (snd (patchAlert userId now i body d))) =
          map resolvedBy (alerts d) \<and>
        map resolvedAt (alerts (snd (patchAlert userId now i body d))) =
          map resolvedAt (alerts d) \<and>
        (\<forall>r. body_isRead body = Some r \<longrightarrow>
           (\<forall>x \<in> set (alerts (snd (patchAlert userId now i body d))).
              alert_id x = i \<longrightarrow> isRead x = r)))"
proof (intro impI conjI allI ballI)
  assume up: "UpdateAlert \<notin> down d"
  note rows = alerts_patchAlert [OF up, of userId now i body]
  show "map alert_id (alerts (snd (patchAlert userId now i body d))) = map alert_id (alerts d)"
    unfolding rows by (rule map_field_updated) simp
  {
    fix x
    assume b: "body_isResolved body = Some b"
      and x: "x \<in> set (alerts (snd (patchAlert userId now i body d)))" and i: "alert_id x = i"
    obtain a where "x = setAlert (alertUpdatesOf userId now body) a"
      using updated_rows_field [OF x [unfolded rows] i] by blast
    then have e: "x = a\<lparr> isRead := (case body_isRead body of None \<Rightarrow> isRead a | Some r \<Rightarrow> r),
                         isResolved := b, resolvedBy := Some userId, resolvedAt := Some now \<rparr>"
      by (simp only: setAlert_resolved_given [OF b])
    show "isResolved x = b" by (simp add: e)
    show "resolvedBy x = Some userId" by (simp add: e)
    show "resolvedAt x = Some now" by (simp add: e)
  }
  {
    assume n: "body_isResolved body = None"
    show "map isResolved (alerts (snd (patchAlert userId now i body d))) =
          map isResolved (alerts d)"
      unfolding rows by (rule map_field_updated) (simp add: setAlert_resolved_absent [OF n])
    show "map resolvedBy (alerts (snd (patchAlert userId now i body d))) =
          map resolvedBy (alerts d)"
      unfolding rows by (rule map_field_updated) (simp add: setAlert_resolved_absent [OF n])
    show "map resolvedAt (alerts (snd (patchAlert userId now i body d))) =
          map resolvedAt (alerts d)"
      unfolding rows by (rule map_field_updated) (simp add: setAlert_resolved_absent [OF n])
  }
  {
    fix r x
    assume n: "body_isResolved body = None" and r: "body_isRead body = Some r"
      and x: "x \<in> set (alerts (snd (patchAlert userId now i body d)))" and i: "alert_id x = i"
    obtain a where "x = setAlert (alertUpdatesOf userId now body) a"
      using updated_rows_field [OF x [unfolded rows] i] by blast
    then show "isRead x = r"
      by (simp add: setAlert_resolved_absent [OF n] r)
  }
qed

lemma down_db_alert: "down db_alert = {}"
  by (simp add: db_alert_def db0_def)

lemma alerts_db_alert: "alerts db_alert = [alert0]"
  by (simp add: db_alert_def)

lemma alert_id_alert0: "alert_id alert0 = ''a1''"
  by (simp add: alert0_def)

lemma patchAlert_db_alert:
  assumes "body_isRead body \<noteq> None \<or> body_isResolved body \<noteq> None"
  shows "patchAlert userId now ''a1'' body db_alert =
     (AlertJson (Some (setAlert (alertUpdatesOf userId now body) alert0)),
      db_alert\<lparr>alerts := [setAlert (alertUpdatesOf userId now body) alert0]\<rparr>)"
  using assms
  by (simp add: patchAlert_rows down_db_alert alerts_db_alert alert_id_alert0)

theorem patchAlert_resolution_fields_witness:
  "UpdateAlert \<notin> down db_alert \<and> body_isResolved reopen = Some False \<and>
   alerts (snd (patchAlert ''u1'' later0 ''a1'' reopen db_alert)) =
     [alert0\<lparr>isResolved := False, resolvedBy := Some ''u1'', resolvedAt := Some later0\<rparr>] \<and>
   map alert_id (alerts (snd (patchAlert ''u1'' later0 ''a1'' reopen db_alert))) =
     map alert_id (alerts db_alert) \<and>
   isResolved (hd (alerts (snd (patchAlert ''u1'' later0 ''a1'' reopen db_alert)))) = False \<and>
   resolvedBy (hd (alerts (snd (patchAlert ''u1'' later0 ''a1'' reopen db_alert)))) =
     Some ''u1'' \<and>
   resolvedAt (hd (alerts (snd (patchAlert ''u1'' later0 ''a1'' reopen db_alert)))) =
     Some later0 \<and>
   body_isResolved markRead = None \<and> body_isRead markRead = Some True \<and>
   alerts (snd (patchAlert ''u1'' later0 ''a1'' markRead db_alert)) = [alert0\<lparr>isRead := True\<rparr>] \<and>
   map isResolved (alerts (snd (patchAlert ''u1'' later0 ''a1'' markRead db_alert))) =
     map isResolved (alerts db_alert) \<and>
   map resolvedBy (alerts (snd (patchAlert ''u1'' later0 ''a1'' markRead db_alert))) =
     map resolvedBy (alerts db_alert) \<and>
   map resolvedAt (alerts (snd (patchAlert ''u1'' later0 ''a1'' markRead db_alert))) =
     map resolvedAt (alerts db_alert)"
proof -
  have up: "UpdateAlert \<notin> down db_alert"
    by (simp add: down_db_alert)
  have r: "body_isResolved reopen = Some False"
    by (simp add: reopen_def)
  have m: "body_isResolved markRead = None" "body_isRead markRead = Some True"
    by (simp_all add: markRead_def)
  have e1: "alerts (snd (patchAlert ''u1'' later0 ''a1'' reopen db_alert)) =
     [alert0\<lparr>isResolved := False, resolvedBy := Some ''u1'', resolvedAt := Some later0\<rparr>]"
    by (simp add: patchAlert_db_alert setAlert_resolved_given [OF r] r) (simp add: reopen_def)
  have e2: "alerts (snd (patchAlert ''u1'' later0 ''a1'' markRead db_alert)) =
     [alert0\<lparr>isRead := True\<rparr>]"
    by (simp add: patchAlert_db_alert setAlert_resolved_absent [OF m(1)] m(2))
  note t1 = patchAlert_resolution_fields [of db_alert "''u1''" later0 "''a1''" reopen False]
  note t2 = patchAlert_resolution_fields [of db_alert "''u1''" later0 "''a1''" markRead False]
  have mem: "hd (alerts (snd (patchAlert ''u1'' later0 ''a1'' reopen db_alert)))
               \<in> set (alerts (snd (patchAlert ''u1'' later0 ''a1'' reopen db_alert)))"
    and ident: "alert_id (hd (alerts (snd (patchAlert ''u1'' later0 ''a1'' reopen db_alert)))) =
                  ''a1''"
    by (simp_all add: e1 alert_id_alert0)
  have ids: "map alert_id (alerts (snd (patchAlert ''u1'' later0 ''a1'' reopen db_alert))) =
     map alert_id (alerts db_alert)"
    using t1 up by blast
  have row: "isResolved (hd (alerts (snd (patchAlert ''u1'' later0 ''a1'' reopen db_alert)))) = False \<and>
     resolvedBy (hd (alerts (snd (patchAlert ''u1'' later0 ''a1'' reopen db_alert)))) =
       Some ''u1'' \<and>
     resolvedAt (hd (alerts (snd (patchAlert ''u1'' later0 ''a1'' reopen db_alert)))) =
       Some later0"
    using t1 up r mem ident by blast
  have frame: "map isResolved (alerts (snd (patchAlert ''u1'' later0 ''a1'' markRead db_alert))) =
       map isResolved (alerts db_alert) \<and>
     map resolvedBy (alerts (snd (patchAlert ''u1'' later0 ''a1'' markRead db_alert))) =
       map resolvedBy (alerts db_alert) \<and>
     map resolvedAt (alerts (snd (patchAlert ''u1'' later0 ''a1'' markRead db_alert))) =
       map resolvedAt (alerts db_alert)"
    using t2 up m(1) by blast
  show ?thesis
    using up r m e1 e2 ids row frame by blast
qed

lemma setAlert_markRead:
  "setAlert (alertUpdatesOf userId now markRead) a = a\<lparr>isRead := True\<rparr>"
  by (simp add: setAlert_resolved_absent markRead_def)

lemma setAlert_markResolved:
  "setAlert (alertUpdatesOf userId now markResolved) a =
     a\<lparr>isResolved := True, resolvedBy := Some userId, resolvedAt := Some now\<rparr>"
  by (simp add: setAlert_resolved_given [of _ True] markResolved_def)

lemma setAlert_reopen:
  "setAlert (alertUpdatesOf userId now reopen) a =
     a\<lparr>isResolved := False, resolvedBy := Some userId, resolvedAt := Some now\<rparr>"
  by (simp add: setAlert_resolved_given [of _ False] reopen_def)

lemma updated_twice:
  assumes "\<And>a. g (g a) = g a" and "\<And>a. alert_id (g a) = alert_id a"
  shows "map (\<lambda>a. if alert_id a = i then g a else a)
           (map (\<lambda>a. if alert_id a = i then g a else a) xs) =
         map (\<lambda>a. if alert_id a = i then g a else a) xs"
    and "map_option g (find (\<lambda>a. alert_id a = i)
                         (map (\<lambda>a. if alert_id a = i then g a else a) xs)) =
         map_option g (find (\<lambda>a. alert_id a = i) xs)"
  using assms by (induction xs) simp_all

lemma markRead_twice:
  "patchAlert userId' now' i markRead (snd (patchAlert userId now i markRead d)) =
     patchAlert userId now i markRead d"
proof (cases "UpdateAlert \<in> down d")
  case True
  then show ?thesis
    by (simp add: patchAlert_down)
next
  case False
  define g where "g = setAlert (alertUpdatesOf userId now markRead)"
  have same: "alertUpdatesOf userId' now' markRead = alertUpdatesOf userId now markRead"
    by (simp add: alertUpdatesOf_def markRead_def)
  have idem: "g (g a) = g a" for a
    by (simp add: g_def setAlert_markRead)
  have ident: "alert_id (g a) = alert_id a" for a
    by (simp add: g_def)
  have d2: "UpdateAlert \<notin> down (d\<lparr>alerts := ys\<rparr>)" for ys
    using False by simp
  have nz: "body_isRead markRead \<noteq> None \<or> body_isResolved markRead \<noteq> None"
    by (simp add: markRead_def)
  have once: "patchAlert userId now i markRead d =
                (AlertJson (map_option g (find (\<lambda>a. alert_id a = i) (alerts d))),
                 d\<lparr>alerts := map (\<lambda>a. if alert_id a = i then g a else a) (alerts d)\<rparr>)"
    unfolding g_def by (rule patchAlert_rows [OF False nz])
  have "patchAlert userId' now' i markRead (snd (patchAlert userId now i markRead d)) =
          (AlertJson (map_option g (find (\<lambda>a. alert_id a = i)
                        (map (\<lambda>a. if alert_id a = i then g a else a) (alerts d)))),
           d\<lparr>alerts := map (\<lambda>a. if alert_id a = i then g a else a)
                           (map (\<lambda>a. if alert_id a = i then g a else a) (alerts d))\<rparr>)"
    unfolding once g_def by (simp add: patchAlert_rows [OF d2 nz] same)
  also have "\<dots> = patchAlert userId now i markRead d"
    unfolding once by (simp only: updated_twice [of g, OF idem ident])
  finally show ?thesis .
qed

lemma setAlert_keeps_resolved:
  assumes "isResolved a" and "body_isResolved body \<noteq> Some False"
  shows "isResolved (setAlert (alertUpdatesOf userId now body) a)"
proof (cases "body_isResolved body")
  case None
  then show ?thesis
    using assms(1) by (simp add: setAlert_resolved_absent)
next
  case (Some b)
  then have "b" using assms(2) by simp
  then show ?thesis
    using Some by (simp add: setAlert_resolved_given [of body b])
qed

lemma checkThresholds_db0_30: "checkThresholds ''a1'' now0 db0 ''k1'' 30 = Inr db_alert"
proof -
  let ?k = "\<lparr> kpi_id = ''k1'', kpi_name = ''Uptime'', kpi_pillarId = ''p1'',
             kpi_departmentId = ''d1'', kpi_isActive = True, kd_pillar = pillar0,
             kd_department = dept0, kd_status = Amber, kd_progress = 75 \<rparr>"
  have d: "determineAlert (kpi_name ?k) (jsonThreshold (target_threshold target0))
             (parseFloat (targetValue target0)) (numberOf 30) =
          (''threshold_breach'', critical, ''Critical: Uptime Below Red Threshold'')"
    by (simp add: jsonThreshold_target0 target0_def parseFloat_100 determineAlert_examples)
  have c: "CreateAlert \<notin> down db0"
    by (simp add: db0_def)
  have a: "alerts db0 = []"
    by (simp add: db0_def)
  show ?thesis
    using checkThresholds_found [OF getKPI_db0 getTargets_db0 c d, where newId = "''a1''"]
    by (simp add: db_alert_def alert0_def a)
qed

text \<open>No write to the alert table creates an alert that is read or resolved: a write
  keeps the rows in place or appends one unread, unresolved row.\<close>

lemma applyWrite_creates_unread:
  "map alert_id (alerts (applyWrite newId now w d)) = map alert_id (alerts d) \<or>
   (\<exists>a. alerts (applyWrite newId now w d) = alerts d @ [a] \<and> \<not> isRead a \<and> \<not> isResolved a)"
proof (cases w)
  case (Evaluate kpiId av)
  then show ?thesis
    by (auto simp: applyWrite_def checkThresholds_def checkThresholds_try_def createAlert_def
                   Let_def
             split: sum.splits option.splits prod.splits if_splits)
next
  case (Detect kpiId)
  then show ?thesis
    by (auto simp: applyWrite_def detectAnomalies_def detectAnomalies_try_def createAlert_def
                   Let_def
             split: sum.splits option.splits prod.splits if_splits)
next
  case (Patch userId i body)
  have "map alert_id (alerts (snd (patchAlert userId now i body d))) = map alert_id (alerts d)"
  proof (cases "UpdateAlert \<in> down d")
    case True
    then show ?thesis by (simp add: patchAlert_down)
  next
    case False
    show ?thesis
      unfolding alerts_patchAlert [OF False] by (rule map_field_updated) simp
  qed
  then show ?thesis
    using Patch by (simp add: applyWrite_def)
qed

text \<open>
  Claim C6, as the code has it. Every alert is created unread and unresolved: each write
  to the alert table keeps its rows in place or appends one row with isRead = false and
  isResolved = false. The alert route applies a request that carries at least one flag
  to the rows with the requested id, and answers 500 without writing to a request that
  carries none. Marking read sets isRead and nothing else, so an unresolved alert stays
  unresolved, and a repeated mark-read changes nothing further. Marking resolved sets
  isResolved and records the requesting user and the current time. A resolved alert
  stays resolved under every request that does not carry isResolved = false; the route
  has no guard that makes the resolved state terminal.
\<close>

theorem alert_lifecycle:
  "(map alert_id (alerts (applyWrite newId now w d)) = map alert_id (alerts d) \<or>
    (\<exists>a. alerts (applyWrite newId now w d) = alerts d @ [a] \<and>
         \<not> isRead a \<and> \<not> isResolved a)) \<and>
   (UpdateAlert \<notin> down d \<and> (body_isRead body \<noteq> None \<or> body_isResolved body \<noteq> None) \<longrightarrow>
      patchAlert userId now i body d =
        (AlertJson (map_option (setAlert (alertUpdatesOf userId now body))
                      (find (\<lambda>a. alert_id a = i) (alerts d))),
         d\<lparr>alerts := map (\<lambda>a. if alert_id a = i
                                then setAlert (alertUpdatesOf userId now body) a else a)
                          (alerts d)\<rparr>)) \<and>
   (body_isRead body = None \<and> body_isResolved body = None \<longrightarrow>
      patchAlert userId now i body d = (Failed 500 ''Failed to update alert'', d)) \<and>
   setAlert (alertUpdatesOf userId now markRead) a = a\<lparr>isRead := True\<rparr> \<and>
   patchAlert userId' now' i markRead (snd (patchAlert userId now i markRead d)) =
     patchAlert userId now i markRead d \<and>
   setAlert (alertUpdatesOf userId now markResolved) a =
     a\<lparr>isResolved := True, resolvedBy := Some userId, resolvedAt := Some now\<rparr> \<and>
   (isResolved a \<and> body_isResolved body \<noteq> Some False \<longrightarrow>
      isResolved (setAlert (alertUpdatesOf userId now body) a))"
  using applyWrite_creates_unread [of newId now w d]
    patchAlert_rows [of d body userId now i]
    patchAlert_empty [of body userId now i d]
    setAlert_markRead [of userId now a]
    markRead_twice [of userId' now' i userId now d]
    setAlert_markResolved [of userId now a]
    setAlert_keeps_resolved [of a body userId now]
  by blast

theorem alert_lifecycle_witness:
  "alerts (applyWrite ''a1'' now0 (Evaluate ''k1'' 30) db0) = alerts db0 @ [alert0] \<and>
   \<not> isRead alert0 \<and> \<not> isResolved alert0 \<and>
   (map alert_id (alerts (applyWrite ''a1'' now0 (Evaluate ''k1'' 30) db0)) =
      map alert_id (alerts db0) \<or>
    (\<exists>a. alerts (applyWrite ''a1'' now0 (Evaluate ''k1'' 30) db0) = alerts db0 @ [a] \<and>
         \<not> isRead a \<and> \<not> isResolved a)) \<and>
   UpdateAlert \<notin> down db_alert \<and> body_isResolved markResolved \<noteq> None \<and>
   patchAlert ''u1'' later0 ''a1'' markResolved db_alert =
     (AlertJson (map_option (setAlert (alertUpdatesOf ''u1'' later0 markResolved))
                   (find (\<lambda>a. alert_id a = ''a1'') (alerts db_alert))),
      db_alert\<lparr>alerts := map (\<lambda>a. if alert_id a = ''a1''
                                    then setAlert (alertUpdatesOf ''u1'' later0 markResolved) a
                                    else a)
                              (alerts db_alert)\<rparr>) \<and>
   patchAlert ''u1'' later0 ''a1'' \<lparr> body_isRead = None, body_isResolved = None \<rparr> db_alert =
     (Failed 500 ''Failed to update alert'', db_alert) \<and>
   isResolved (alert0\<lparr>isResolved := True\<rparr>) \<and> body_isResolved markRead \<noteq> Some False \<and>
   isResolved (setAlert (alertUpdatesOf ''u2'' later0 markRead) (alert0\<lparr>isResolved := True\<rparr>))"
proof -
  let ?none = "\<lparr> body_isRead = None, body_isResolved = None \<rparr>"
  have up: "UpdateAlert \<notin> down db_alert"
    by (simp add: down_db_alert)
  have r: "isResolved (alert0\<lparr>isResolved := True\<rparr>)" "body_isResolved markRead \<noteq> Some False"
    "body_isResolved markResolved \<noteq> None"
    by (simp_all add: markRead_def markResolved_def)
  have n: "body_isRead ?none = None \<and> body_isResolved ?none = None"
    by simp
  have f: "\<not> isRead alert0" "\<not> isResolved alert0"
    by (simp_all add: alert0_def)
  have w: "alerts (applyWrite ''a1'' now0 (Evaluate ''k1'' 30) db0) = alerts db0 @ [alert0]"
    by (simp add: applyWrite_def checkThresholds_db0_30 db_alert_def) (simp add: db0_def)
  note L1 = alert_lifecycle [where newId = "''a1''" and now = now0 and d = db0
                and w = "Evaluate ''k1'' 30" and userId = "''u1''" and i = "''a1''"
                and body = markRead and a = alert0 and userId' = "''u1''" and now' = now0]
  note L3 = alert_lifecycle [where newId = "''a1''" and now = later0 and d = db_alert
                and w = "Evaluate ''k1'' 30" and userId = "''u1''" and i = "''a1''"
                and body = markResolved and a = alert0 and userId' = "''u1''"
                and now' = now0]
  note L4 = alert_lifecycle [where newId = "''a1''" and now = later0 and d = db_alert
                and w = "Evaluate ''k1'' 30" and userId = "''u2''" and i = "''a1''"
                and body = markRead and a = "alert0\<lparr>isResolved := True\<rparr>"
                and userId' = "''u1''" and now' = now0]
  note L5 = alert_lifecycle [where newId = "''a1''" and now = later0 and d = db_alert
                and w = "Evaluate ''k1'' 30" and userId = "''u1''" and i = "''a1''"
                and body = ?none and a = alert0 and userId' = "''u1''" and now' = now0]
  have c1: "map alert_id (alerts (applyWrite ''a1'' now0 (Evaluate ''k1'' 30) db0)) =
      map alert_id (alerts db0) \<or>
    (\<exists>a. alerts (applyWrite ''a1'' now0 (Evaluate ''k1'' 30) db0) = alerts db0 @ [a] \<and>
         \<not> isRead a \<and> \<not> isResolved a)"
    using L1 by blast
  have c3: "patchAlert ''u1'' later0 ''a1'' markResolved db_alert =
     (AlertJson (map_option (setAlert (alertUpdatesOf ''u1'' later0 markResolved))
                   (find (\<lambda>a. alert_id a = ''a1'') (alerts db_alert))),
      db_alert\<lparr>alerts := map (\<lambda>a. if alert_id a = ''a1''
                                    then setAlert (alertUpdatesOf ''u1'' later0 markResolved) a
                                    else a)
                              (alerts db_alert)\<rparr>)"
    using L3 up r(3) by blast
  have c4: "isResolved (setAlert (alertUpdatesOf ''u2'' later0 markRead)
                         (alert0\<lparr>isResolved := True\<rparr>))"
    using L4 r by blast
  have c5: "patchAlert ''u1'' later0 ''a1'' ?none db_alert =
              (Failed 500 ''Failed to update alert'', db_alert)"
    using L5 n by blast
  show ?thesis
    using w f up r c1 c3 c4 c5 by blast
qed

text \<open>The claim as written fails: a resolved alert is reopened by a request that carries
  isResolved = false, which also overwrites the resolver and the time.\<close>

theorem alert_resolved_not_terminal_counterexample:
  "alerts (snd (patchAlert ''u1'' now0 ''a1'' markResolved db_alert)) =
     [alert0\<lparr>isResolved := True, resolvedBy := Some ''u1'', resolvedAt := Some now0\<rparr>] \<and>
   alerts (snd (patchAlert ''u2'' later0 ''a1'' reopen
                  (snd (patchAlert ''u1'' now0 ''a1'' markResolved db_alert)))) =
     [alert0\<lparr>isResolved := False, resolvedBy := Some ''u2'', resolvedAt := Some later0\<rparr>]"
proof -
  have d2: "UpdateAlert \<notin> down (db_alert\<lparr>alerts := ys\<rparr>)" for ys
    by (simp add: down_db_alert)
  have nz: "body_isRead markResolved \<noteq> None \<or> body_isResolved markResolved \<noteq> None"
    "body_isRead reopen \<noteq> None \<or> body_isResolved reopen \<noteq> None"
    by (simp_all add: markResolved_def reopen_def)
  show ?thesis
    by (simp add: patchAlert_db_alert [OF nz(1)] patchAlert_rows [OF d2 nz(2)]
          setAlert_markResolved setAlert_reopen alert_id_alert0)
qed

end
